theory Spec2Isabelle
  imports Complex_Main
begin

section \<open>Values and errors\<close>

text \<open>
  The notebook \<^verbatim>\<open>tutorials/building_image_classifier.ipynb\<close> is a sequence of code
  cells. The exceptions its own code can raise are values of \<open>error\<close>. Floating-point
  results (losses, accuracies, the privacy budget) are modelled as exact rationals
  together with the one special value the code can produce itself, \<open>NaN\<close> (the mean of an
  empty array); rounding is left out.
\<close>

datatype error =
    ZeroDivisionError
  | AssertionError
  | NameError
  | BroadcastError
  | IncompatibleModuleException string "string list"

datatype npfloat = NaN | Fin rat

text \<open>\<^verbatim>\<open>np.mean\<close> of a list of floats: \<open>nan\<close> for the empty list, and \<open>nan\<close> as soon as
  one entry is \<open>nan\<close>.\<close>

fun np_sum :: "npfloat list \<Rightarrow> npfloat" where
  "np_sum [] = Fin 0"
| "np_sum (NaN # xs) = NaN"
| "np_sum (Fin q # xs) = (case np_sum xs of NaN \<Rightarrow> NaN | Fin r \<Rightarrow> Fin (q + r))"

definition np_mean :: "npfloat list \<Rightarrow> npfloat" where
  "np_mean xs =
     (if xs = [] then NaN
      else case np_sum xs of NaN \<Rightarrow> NaN | Fin t \<Rightarrow> Fin (t / of_nat (length xs)))"

fun np_times :: "npfloat \<Rightarrow> rat \<Rightarrow> npfloat" where
  "np_times NaN c = NaN"
| "np_times (Fin q) c = Fin (q * c)"

section \<open>Hyper-parameters (cells 5 and 7)\<close>

definition MAX_GRAD_NORM :: rat where
  "MAX_GRAD_NORM = 12 / 10"

definition NOISE_MULTIPLIER :: rat where
  "NOISE_MULTIPLIER = 38 / 100"

definition DELTA :: rat where
  "DELTA = 1 / 100000"

definition LR :: rat where
  "LR = 1 / 1000"

definition BATCH_SIZE :: int where
  "BATCH_SIZE = 128"

definition VIRTUAL_BATCH_SIZE :: int where
  "VIRTUAL_BATCH_SIZE = 512"

section \<open>Python arithmetic\<close>

text \<open>\<^verbatim>\<open>a % b\<close> on Python integers: the result has the sign of \<open>b\<close>, as \<open>mod\<close> on
  \<open>int\<close> has; a zero divisor raises.\<close>

definition py_mod :: "int \<Rightarrow> int \<Rightarrow> error + int" where
  "py_mod a b = (if b = 0 then Inl ZeroDivisionError else Inr (a mod b))"

text \<open>\<^verbatim>\<open>int(a / b)\<close>: true division, then truncation towards zero. The quotient is taken
  exactly here; Python rounds it to a double first, which changes nothing while
  \<open>\<bar>a\<bar> < 2 ^ 53\<close> (the notebook divides 512 by 128).\<close>

definition py_int_truediv :: "int \<Rightarrow> int \<Rightarrow> error + int" where
  "py_int_truediv a b =
     (if b = 0 then Inl ZeroDivisionError
      else let q = (of_int a / of_int b :: rat)
           in Inr (if 0 \<le> q then \<lfloor>q\<rfloor> else \<lceil>q\<rceil>))"

section \<open>The virtual batch rate (cell 30)\<close>

text \<open>
  \<^verbatim>\<open>
  assert VIRTUAL_BATCH_SIZE % BATCH_SIZE == 0
  virtual_batch_rate = int(VIRTUAL_BATCH_SIZE / BATCH_SIZE)
  \<close>
\<close>

definition virtual_batch_rate_cell :: "int \<Rightarrow> int \<Rightarrow> error + int" where
  "virtual_batch_rate_cell vbs bs =
     (case py_mod vbs bs of
        Inl e \<Rightarrow> Inl e
      | Inr r \<Rightarrow> if r \<noteq> 0 then Inl AssertionError else py_int_truediv vbs bs)"

section \<open>The accuracy helper (cell 26)\<close>

text \<open>
  \<^verbatim>\<open>
  def accuracy(preds, labels):
      return (preds == labels).mean()
  \<close>
  An array is a list of numbers; an integer array, such as the predictions and the
  labels of the notebook, has the entries \<open>np_int n\<close>. \<open>==\<close> on two numbers follows
  IEEE 754: \<open>nan\<close> is unequal to every number, itself included. \<open>==\<close> on two
  one-dimensional arrays compares element by element; an array of length one is
  broadcast against the other; any other pair of different lengths is an error.
  \<open>.mean()\<close> of a boolean array is the number of \<open>True\<close> entries over the length, and
  \<open>nan\<close> for the empty array.
\<close>

definition np_int :: "nat \<Rightarrow> npfloat" where
  "np_int n = Fin (of_nat n)"

fun np_eq :: "npfloat \<Rightarrow> npfloat \<Rightarrow> bool" where
  "np_eq (Fin a) (Fin b) = (a = b)"
| "np_eq NaN y = False"
| "np_eq (Fin a) NaN = False"

definition np_equal :: "npfloat list \<Rightarrow> npfloat list \<Rightarrow> error + bool list" where
  "np_equal xs ys =
     (if length xs = length ys then Inr (map (\<lambda>(x, y). np_eq x y) (zip xs ys))
      else if length xs = 1 then Inr (map (\<lambda>y. np_eq (hd xs) y) ys)
      else if length ys = 1 then Inr (map (\<lambda>x. np_eq x (hd ys)) xs)
      else Inl BroadcastError)"

definition np_mean_bool :: "bool list \<Rightarrow> npfloat" where
  "np_mean_bool bs =
     (if bs = [] then NaN
      else Fin (of_nat (length (filter (\<lambda>b. b) bs)) / of_nat (length bs)))"

definition accuracy :: "npfloat list \<Rightarrow> npfloat list \<Rightarrow> error + npfloat" where
  "accuracy preds labels =
     (case np_equal preds labels of
        Inl e \<Rightarrow> Inl e
      | Inr eqs \<Rightarrow> Inr (np_mean_bool eqs))"

section \<open>The model and the two library utilities applied to it (cells 14, 17, 19)\<close>

text \<open>
  A network is a tree of named sub-modules, each of one layer type, in the order in which
  they were registered. \<open>resnet18\<close> is the tree that \<^verbatim>\<open>torchvision.models.resnet18\<close>
  builds: a stem, four stages of two basic blocks each, the first block of stages 2 to 4
  with a \<open>downsample\<close> branch, and the classifier head. These are the twenty
  batch-normalisation layers, under the names of the exception recorded in the notebook
  below cell 17.
\<close>

datatype layer =
    Conv2d | BatchNorm2d | GroupNorm | ReLU | MaxPool2d | AdaptiveAvgPool2d | Linear
  | Sequential | BasicBlock | ResNet

datatype module = Module layer "(string \<times> module) list"

definition basic_block :: "bool \<Rightarrow> module" where
  "basic_block with_downsample =
     Module BasicBlock
       ([(''conv1'', Module Conv2d []),
         (''bn1'', Module BatchNorm2d []),
         (''relu'', Module ReLU []),
         (''conv2'', Module Conv2d []),
         (''bn2'', Module BatchNorm2d [])]
        @ (if with_downsample
           then [(''downsample'',
                  Module Sequential
                    [(''0'', Module Conv2d []), (''1'', Module BatchNorm2d [])])]
           else []))"

definition make_layer :: "bool \<Rightarrow> module" where
  "make_layer with_downsample =
     Module Sequential
       [(''0'', basic_block with_downsample), (''1'', basic_block False)]"

definition resnet18 :: module where
  "resnet18 =
     Module ResNet
       [(''conv1'', Module Conv2d []),
        (''bn1'', Module BatchNorm2d []),
        (''relu'', Module ReLU []),
        (''maxpool'', Module MaxPool2d []),
        (''layer1'', make_layer False),
        (''layer2'', make_layer True),
        (''layer3'', make_layer True),
        (''layer4'', make_layer True),
        (''avgpool'', Module AdaptiveAvgPool2d []),
        (''fc'', Module Linear [])]"

text \<open>
  Modelled from the spec: the layer types that
  \<^verbatim>\<open>opacus.dp_model_inspector.DPModelInspector\<close> (not among the sources) rejects, and its
  search for them. The spec: the check fails "when the model contains layer types
  incompatible with per-sample gradient computation"; the notebook names the type
  (cell 18: "the BatchNorm layers are not supported because they compute the mean and
  variance across the batch"). The violators are reported by name, as dotted paths from
  \<open>Main\<close> in the order of registration, as the recorded output of cell 17 shows them.
\<close>

definition incompatible :: "layer \<Rightarrow> bool" where
  "incompatible l = (l = BatchNorm2d)"

fun violators :: "string \<Rightarrow> module \<Rightarrow> string list"
  and violators_children :: "string \<Rightarrow> (string \<times> module) list \<Rightarrow> string list" where
  "violators name (Module l children) =
     (if incompatible l then [name] else []) @ violators_children name children"
| "violators_children name [] = []"
| "violators_children name ((n, child) # rest) =
     violators (name @ ''.'' @ n) child @ violators_children name rest"

text \<open>
  Modelled from the spec: \<^verbatim>\<open>DPModelInspector.validate\<close>, which is not among the sources.
  The spec: it raises "a model-compatibility validation failure" with "the reported list
  of offending layers", and otherwise "returns success". The traceback recorded below
  cell 17 shows the end of the function: it raises \<open>IncompatibleModuleException\<close> with
  the general message followed by the inspector's message and its violators, and
  returns \<open>valid\<close> otherwise. (The two parts of the message are on separate lines in
  the library; here they are one string and the violators a list.)
\<close>

definition validate :: "module \<Rightarrow> error + bool" where
  "validate m =
     (let vs = violators ''Main'' m
      in if vs \<noteq> []
         then Inl (IncompatibleModuleException
                     ''Model contains incompatible modules. Some modules are not valid.'' vs)
         else Inr True)"

text \<open>
  Modelled from the spec: \<^verbatim>\<open>opacus.utils.module_modification.convert_batchnorm_modules\<close>,
  which is not among the sources. The spec: "a module-rewriting step that substitutes one
  normalization layer type for another throughout the model graph"; the notebook
  (cell 18): "replace all the BatchNorm layers with GroupNorm".
\<close>

fun convert_batchnorm_modules :: "module \<Rightarrow> module"
  and convert_children :: "(string \<times> module) list \<Rightarrow> (string \<times> module) list" where
  "convert_batchnorm_modules (Module l children) =
     Module (if l = BatchNorm2d then GroupNorm else l) (convert_children children)"
| "convert_children [] = []"
| "convert_children ((n, child) # rest) =
     (n, convert_batchnorm_modules child) # convert_children rest"

text \<open>All layer types in a model, in registration order (depth first).\<close>

fun layers :: "module \<Rightarrow> layer list"
  and layers_children :: "(string \<times> module) list \<Rightarrow> layer list" where
  "layers (Module l children) = l # layers_children children"
| "layers_children [] = []"
| "layers_children ((n, child) # rest) = layers child @ layers_children rest"

section \<open>The interface to torch and opacus\<close>

text \<open>
  Everything the libraries keep for the model (parameters, gradients, the training mode,
  the optimizer's and the privacy engine's state, the device) is one value of an
  abstract type \<open>'w\<close>; an image is a value of \<open>'x\<close>, a label a natural number, a batch
  a list of labelled images. The library calls the notebook makes are the fields of
  \<open>torch\<close>; nothing is assumed about them.
\<close>

type_synonym 'x batch = "('x \<times> nat) list"

record PrivacyEngine =
  batch_size :: int
  sample_size :: nat
  alphas :: "rat list"
  noise_multiplier :: rat
  max_grad_norm :: rat

record ('w, 'x) torch =
  new_model :: 'w
    \<comment> \<open>\<^verbatim>\<open>models.resnet18(num_classes=10)\<close>: the freshly initialised network\<close>
  converted :: "'w \<Rightarrow> 'w"
    \<comment> \<open>the tensors after \<^verbatim>\<open>convert_batchnorm_modules\<close>\<close>
  to_device :: "'w \<Rightarrow> 'w"
  new_optimizer :: "'w \<Rightarrow> rat \<Rightarrow> 'w"
    \<comment> \<open>\<^verbatim>\<open>optim.RMSprop(model.parameters(), lr=LR)\<close>\<close>
  attach :: "PrivacyEngine \<Rightarrow> 'w \<Rightarrow> 'w"
  shuffled :: "nat \<Rightarrow> 'x batch \<Rightarrow> 'x batch"
    \<comment> \<open>the order in which a shuffling loader yields the dataset on its \<open>k\<close>-th pass\<close>
  set_train :: "'w \<Rightarrow> 'w"
  set_eval :: "'w \<Rightarrow> 'w"
  zero_grad :: "'w \<Rightarrow> 'w"
  argmax_output :: "module \<Rightarrow> 'w \<Rightarrow> 'x list \<Rightarrow> nat \<Rightarrow> nat"
    \<comment> \<open>\<^verbatim>\<open>np.argmax(model(images), axis=1)[k]\<close>\<close>
  loss_item :: "module \<Rightarrow> 'w \<Rightarrow> 'x batch \<Rightarrow> npfloat"
    \<comment> \<open>\<^verbatim>\<open>criterion(model(images), target).item()\<close>\<close>
  backward :: "module \<Rightarrow> 'w \<Rightarrow> 'x batch \<Rightarrow> 'w"
  step :: "'w \<Rightarrow> 'w"
  virtual_step :: "'w \<Rightarrow> 'w"
  get_privacy_spent :: "'w \<Rightarrow> rat \<Rightarrow> npfloat \<times> npfloat"

section \<open>The notebook's state and what it prints\<close>

datatype line =
    SigmaLine rat rat
    \<comment> \<open>\<^verbatim>\<open>Using sigma=... and C=...\<close>\<close>
  | ValidLine bool
    \<comment> \<open>\<^verbatim>\<open>Is the model valid? ...\<close>\<close>
  | TrainLine nat npfloat npfloat npfloat rat
    \<comment> \<open>\<^verbatim>\<open>Train Epoch: e  Loss: l  Acc@1: a  (eps = ..., delta = ...)\<close>\<close>
  | TestLine npfloat npfloat
    \<comment> \<open>\<^verbatim>\<open>Test set:Loss: l  Acc: a\<close>\<close>

text \<open>
  The trace records, in order, what a run does that can be seen from outside: the lines
  printed, the exception a cell ends with, the calls into the libraries that change the
  model or the optimizer, and the entries of \<open>train\<close> and \<open>test\<close> with their arguments.
\<close>

datatype 'x event =
    Raised error
  | Print line
  | ConvertBatchnormModules
  | ModelToDevice
  | NewOptimizer
  | NewPrivacyEngine PrivacyEngine
  | Attach
  | TrainCalled nat "'x batch list"
  | TestCalled "'x batch list"
  | ModelTrain
  | ModelEval
  | ZeroGrad
  | Forward module
  | Backward
  | Step
  | VirtualStep

record ('w, 'x) notebook =
  model :: module
  weights :: 'w
  privacy_engine :: "PrivacyEngine option"
  virtual_batch_rate :: "int option"
  top1_acc :: "npfloat option"
  trace :: "'x event list"

text \<open>A statement either raises, leaving the state as it is at that point, or yields a
  value and the next state.\<close>

type_synonym ('a, 'w, 'x) result =
  "(error \<times> ('w, 'x) notebook) + ('a \<times> ('w, 'x) notebook)"

definition log :: "'x event \<Rightarrow> ('w, 'x) notebook \<Rightarrow> ('w, 'x) notebook" where
  "log e s = s\<lparr>trace := trace s @ [e]\<rparr>"

section \<open>Data loaders (cell 12)\<close>

text \<open>
  \<^verbatim>\<open>DataLoader(dataset, batch_size=BATCH_SIZE, ...)\<close> with the default
  \<^verbatim>\<open>drop_last=False\<close> yields the dataset in consecutive batches of \<open>batch_size\<close>
  samples, the last one shorter when the size does not divide the length. (A batch size
  of 0 is refused by the loader's constructor; here it yields nothing.)
\<close>

function batches_of :: "nat \<Rightarrow> 'a list \<Rightarrow> 'a list list" where
  "batches_of n xs =
     (if n = 0 \<or> xs = [] then [] else take n xs # batches_of n (drop n xs))"
  by pat_completeness auto
termination
  by (relation "measure (\<lambda>(n, xs). length xs)") auto

declare batches_of.simps [simp del]

definition train_loader :: "('w, 'x) torch \<Rightarrow> 'x batch \<Rightarrow> nat \<Rightarrow> 'x batch list" where
  "train_loader T train_dataset k = batches_of (nat BATCH_SIZE) (shuffled T k train_dataset)"

definition test_loader :: "'x batch \<Rightarrow> 'x batch list" where
  "test_loader test_dataset = batches_of (nat BATCH_SIZE) test_dataset"

section \<open>Training for one epoch (cell 31)\<close>

text \<open>
  One iteration of the loop of \<open>train\<close> on batch number \<open>i\<close> of \<open>n\<close>, with the local
  lists \<open>losses\<close> and \<open>top1_acc\<close> as a pair. The global \<open>virtual_batch_rate\<close> is read
  when the condition is evaluated; \<^verbatim>\<open>(i + 1) % virtual_batch_rate\<close> is evaluated before
  the other operand of \<^verbatim>\<open>or\<close>.
\<close>

definition train_batch ::
  "('w, 'x) torch \<Rightarrow> module \<Rightarrow> nat \<Rightarrow> nat \<Rightarrow> nat \<Rightarrow> 'x batch
   \<Rightarrow> npfloat list \<times> npfloat list \<Rightarrow> ('w, 'x) notebook
   \<Rightarrow> (npfloat list \<times> npfloat list, 'w, 'x) result" where
  "train_batch T m n epoch i batch locals s =
     (let (losses, accs) = locals;
          s = log ZeroGrad (s\<lparr>weights := zero_grad T (weights s)\<rparr>);
          images = map fst batch;
          target = map snd batch;
          s = log (Forward m) s;
          loss = loss_item T m (weights s) batch;
          preds = map (\<lambda>k. np_int (argmax_output T m (weights s) images k))
                    [0..<length images];
          labels = map np_int target
      in case accuracy preds labels of
           Inl e \<Rightarrow> Inl (e, s)
         | Inr acc \<Rightarrow>
             (let losses = losses @ [loss];
                  accs = accs @ [acc];
                  s = log Backward (s\<lparr>weights := backward T m (weights s) batch\<rparr>)
              in case virtual_batch_rate s of
                   None \<Rightarrow> Inl (NameError, s)
                 | Some vbr \<Rightarrow>
                     (case py_mod (int (i + 1)) vbr of
                        Inl e \<Rightarrow> Inl (e, s)
                      | Inr r \<Rightarrow>
                          (let s = (if r = 0 \<or> i + 1 = n
                                    then log Step (s\<lparr>weights := step T (weights s)\<rparr>)
                                    else log VirtualStep
                                           (s\<lparr>weights := virtual_step T (weights s)\<rparr>));
                               s = (if i mod 200 = 0
                                    then (let (epsilon, best_alpha) =
                                                get_privacy_spent T (weights s) DELTA
                                          in log (Print (TrainLine epoch (np_mean losses)
                                                    (np_times (np_mean accs) 100)
                                                    epsilon DELTA)) s)
                                    else s)
                           in Inr ((losses, accs), s)))))"

fun train_loop ::
  "('w, 'x) torch \<Rightarrow> module \<Rightarrow> nat \<Rightarrow> nat \<Rightarrow> nat \<Rightarrow> 'x batch list
   \<Rightarrow> npfloat list \<times> npfloat list \<Rightarrow> ('w, 'x) notebook
   \<Rightarrow> (npfloat list \<times> npfloat list, 'w, 'x) result" where
  "train_loop T m n epoch i [] locals s = Inr (locals, s)"
| "train_loop T m n epoch i (batch # rest) locals s =
     (case train_batch T m n epoch i batch locals s of
        Inl e \<Rightarrow> Inl e
      | Inr (locals', s') \<Rightarrow> train_loop T m n epoch (i + 1) rest locals' s')"

definition train ::
  "('w, 'x) torch \<Rightarrow> module \<Rightarrow> 'x batch list \<Rightarrow> nat \<Rightarrow> ('w, 'x) notebook
   \<Rightarrow> (unit, 'w, 'x) result" where
  "train T m loader epoch s =
     (let s = log (TrainCalled epoch loader) s;
          s = log ModelTrain (s\<lparr>weights := set_train T (weights s)\<rparr>)
      in case train_loop T m (length loader) epoch 0 loader ([], []) s of
           Inl e \<Rightarrow> Inl e
         | Inr (locals, s') \<Rightarrow> Inr ((), s'))"

section \<open>Evaluation (cell 33)\<close>

definition test_batch ::
  "('w, 'x) torch \<Rightarrow> module \<Rightarrow> 'x batch
   \<Rightarrow> npfloat list \<times> npfloat list \<Rightarrow> ('w, 'x) notebook
   \<Rightarrow> (npfloat list \<times> npfloat list, 'w, 'x) result" where
  "test_batch T m batch locals s =
     (let (losses, accs) = locals;
          images = map fst batch;
          target = map snd batch;
          s = log (Forward m) s;
          loss = loss_item T m (weights s) batch;
          preds = map (\<lambda>k. np_int (argmax_output T m (weights s) images k))
                    [0..<length images];
          labels = map np_int target
      in case accuracy preds labels of
           Inl e \<Rightarrow> Inl (e, s)
         | Inr acc \<Rightarrow> Inr ((losses @ [loss], accs @ [acc]), s))"

fun test_loop ::
  "('w, 'x) torch \<Rightarrow> module \<Rightarrow> 'x batch list
   \<Rightarrow> npfloat list \<times> npfloat list \<Rightarrow> ('w, 'x) notebook
   \<Rightarrow> (npfloat list \<times> npfloat list, 'w, 'x) result" where
  "test_loop T m [] locals s = Inr (locals, s)"
| "test_loop T m (batch # rest) locals s =
     (case test_batch T m batch locals s of
        Inl e \<Rightarrow> Inl e
      | Inr (locals', s') \<Rightarrow> test_loop T m rest locals' s')"

definition test ::
  "('w, 'x) torch \<Rightarrow> module \<Rightarrow> 'x batch list \<Rightarrow> ('w, 'x) notebook
   \<Rightarrow> (npfloat, 'w, 'x) result" where
  "test T m loader s =
     (let s = log (TestCalled loader) s;
          s = log ModelEval (s\<lparr>weights := set_eval T (weights s)\<rparr>)
      in case test_loop T m loader ([], []) s of
           Inl e \<Rightarrow> Inl e
         | Inr ((losses, accs), s) \<Rightarrow>
             (let top1_avg = np_mean accs;
                  s = log (Print (TestLine (np_mean losses) (np_times top1_avg 100))) s
              in Inr (np_mean accs, s)))"

section \<open>The cells, in order\<close>

text \<open>Cell 14: \<^verbatim>\<open>model = models.resnet18(num_classes=10)\<close>. Nothing else is defined yet.\<close>

definition cell14 :: "('w, 'x) torch \<Rightarrow> ('w, 'x) notebook" where
  "cell14 T =
     \<lparr>model = resnet18, weights = new_model T, privacy_engine = None,
      virtual_batch_rate = None, top1_acc = None, trace = []\<rparr>"

text \<open>Cell 17: \<^verbatim>\<open>inspector.validate(model)\<close>.\<close>

definition cell17 :: "('w, 'x) notebook \<Rightarrow> (unit, 'w, 'x) result" where
  "cell17 s =
     (case validate (model s) of
        Inl e \<Rightarrow> Inl (e, s)
      | Inr valid \<Rightarrow> Inr ((), s))"

text \<open>
  Cell 19:
  \<^verbatim>\<open>
  model = module_modification.convert_batchnorm_modules(model)
  inspector = DPModelInspector()
  print(f"Is the model valid? {inspector.validate(model)}")
  \<close>
\<close>

definition cell19 :: "('w, 'x) torch \<Rightarrow> ('w, 'x) notebook \<Rightarrow> (unit, 'w, 'x) result" where
  "cell19 T s =
     (let s = log ConvertBatchnormModules
                (s\<lparr>model := convert_batchnorm_modules (model s),
                   weights := converted T (weights s)\<rparr>)
      in case validate (model s) of
           Inl e \<Rightarrow> Inl (e, s)
         | Inr valid \<Rightarrow> Inr ((), log (Print (ValidLine valid)) s))"

text \<open>Cell 21: \<^verbatim>\<open>model = model.to(device)\<close>.\<close>

definition cell21 :: "('w, 'x) torch \<Rightarrow> ('w, 'x) notebook \<Rightarrow> (unit, 'w, 'x) result" where
  "cell21 T s = Inr ((), log ModelToDevice (s\<lparr>weights := to_device T (weights s)\<rparr>))"

text \<open>Cell 23: \<^verbatim>\<open>optimizer = optim.RMSprop(model.parameters(), lr=LR)\<close>.\<close>

definition cell23 :: "('w, 'x) torch \<Rightarrow> ('w, 'x) notebook \<Rightarrow> (unit, 'w, 'x) result" where
  "cell23 T s = Inr ((), log NewOptimizer (s\<lparr>weights := new_optimizer T (weights s) LR\<rparr>))"

text \<open>
  Cell 28:
  \<^verbatim>\<open>
  print(f"Using sigma={NOISE_MULTIPLIER} and C={MAX_GRAD_NORM}")
  privacy_engine = PrivacyEngine(
      model,
      batch_size=VIRTUAL_BATCH_SIZE,
      sample_size=len(train_dataset),
      alphas=[1 + x / 10.0 for x in range(1, 100)] + list(range(12, 64)),
      noise_multiplier=NOISE_MULTIPLIER,
      max_grad_norm=MAX_GRAD_NORM,
  )
  privacy_engine.attach(optimizer)
  \<close>
\<close>

definition cell28 ::
  "('w, 'x) torch \<Rightarrow> 'x batch \<Rightarrow> ('w, 'x) notebook \<Rightarrow> (unit, 'w, 'x) result" where
  "cell28 T train_dataset s =
     (let s = log (Print (SigmaLine NOISE_MULTIPLIER MAX_GRAD_NORM)) s;
          engine = \<lparr>batch_size = VIRTUAL_BATCH_SIZE,
                    sample_size = length train_dataset,
                    alphas = map (\<lambda>x. 1 + of_nat x / 10) [1..<100] @ map of_nat [12..<64],
                    noise_multiplier = NOISE_MULTIPLIER,
                    max_grad_norm = MAX_GRAD_NORM\<rparr>;
          s = log (NewPrivacyEngine engine) (s\<lparr>privacy_engine := Some engine\<rparr>);
          s = log Attach (s\<lparr>weights := attach T engine (weights s)\<rparr>)
      in Inr ((), s))"

text \<open>Cell 30: the assertion and the rate, on the constants of cell 7.\<close>

definition cell30 :: "('w, 'x) notebook \<Rightarrow> (unit, 'w, 'x) result" where
  "cell30 s =
     (case virtual_batch_rate_cell VIRTUAL_BATCH_SIZE BATCH_SIZE of
        Inl e \<Rightarrow> Inl (e, s)
      | Inr r \<Rightarrow> Inr ((), s\<lparr>virtual_batch_rate := Some r\<rparr>))"

text \<open>
  Cell 35:
  \<^verbatim>\<open>
  for epoch in tqdm_notebook(range(20), desc="Epoch", unit="epoch"):
      train(model, train_loader, optimizer, epoch + 1, device)
  \<close>
  \<^verbatim>\<open>tqdm_notebook\<close> yields the elements of the range as they are. The loader shuffles:
  its pass in iteration \<open>epoch\<close> is \<open>train_loader T train_dataset epoch\<close>.
\<close>

fun epochs ::
  "('w, 'x) torch \<Rightarrow> 'x batch \<Rightarrow> nat list \<Rightarrow> ('w, 'x) notebook \<Rightarrow> (unit, 'w, 'x) result" where
  "epochs T train_dataset [] s = Inr ((), s)"
| "epochs T train_dataset (epoch # rest) s =
     (case train T (model s) (train_loader T train_dataset epoch) (epoch + 1) s of
        Inl e \<Rightarrow> Inl e
      | Inr (u, s') \<Rightarrow> epochs T train_dataset rest s')"

definition cell35 ::
  "('w, 'x) torch \<Rightarrow> 'x batch \<Rightarrow> ('w, 'x) notebook \<Rightarrow> (unit, 'w, 'x) result" where
  "cell35 T train_dataset s = epochs T train_dataset [0..<20] s"

text \<open>Cell 37: \<^verbatim>\<open>top1_acc = test(model, test_loader, device)\<close>.\<close>

definition cell37 ::
  "('w, 'x) torch \<Rightarrow> 'x batch \<Rightarrow> ('w, 'x) notebook \<Rightarrow> (unit, 'w, 'x) result" where
  "cell37 T test_dataset s =
     (case test T (model s) (test_loader test_dataset) s of
        Inl e \<Rightarrow> Inl e
      | Inr (acc, s') \<Rightarrow> Inr ((), s'\<lparr>top1_acc := Some acc\<rparr>))"

text \<open>
  The notebook is run cell by cell. A cell that raises shows the exception as its output
  and the next cell is run on the state the exception left, as the recorded outputs of
  the notebook show for cell 17.
\<close>

definition run_cell ::
  "(('w, 'x) notebook \<Rightarrow> (unit, 'w, 'x) result) \<Rightarrow> ('w, 'x) notebook \<Rightarrow> ('w, 'x) notebook" where
  "run_cell c s = (case c s of Inl (e, s') \<Rightarrow> log (Raised e) s' | Inr (u, s') \<Rightarrow> s')"

definition run_notebook :: "('w, 'x) torch \<Rightarrow> 'x batch \<Rightarrow> 'x batch \<Rightarrow> ('w, 'x) notebook" where
  "run_notebook T train_dataset test_dataset =
     foldl (\<lambda>s c. run_cell c s) (cell14 T)
       [cell17, cell19 T, cell21 T, cell23 T, cell28 T train_dataset, cell30,
        cell35 T train_dataset, cell37 T test_dataset]"

section \<open>Auxiliary notions for stating the properties\<close>

text \<open>The exception recorded in the notebook as the output of cell 17.\<close>

definition recorded_exception :: error where
  "recorded_exception =
     IncompatibleModuleException
       ''Model contains incompatible modules. Some modules are not valid.''
       [''Main.bn1'', ''Main.layer1.0.bn1'', ''Main.layer1.0.bn2'', ''Main.layer1.1.bn1'',
        ''Main.layer1.1.bn2'', ''Main.layer2.0.bn1'', ''Main.layer2.0.bn2'',
        ''Main.layer2.0.downsample.1'', ''Main.layer2.1.bn1'', ''Main.layer2.1.bn2'',
        ''Main.layer3.0.bn1'', ''Main.layer3.0.bn2'', ''Main.layer3.0.downsample.1'',
        ''Main.layer3.1.bn1'', ''Main.layer3.1.bn2'', ''Main.layer4.0.bn1'',
        ''Main.layer4.0.bn2'', ''Main.layer4.0.downsample.1'', ''Main.layer4.1.bn1'',
        ''Main.layer4.1.bn2'']"

text \<open>The state in which cell 35, the training, starts: cells 14 to 30 have been run.\<close>

definition prepared :: "('w, 'x) torch \<Rightarrow> 'x batch \<Rightarrow> ('w, 'x) notebook" where
  "prepared T train_dataset =
     foldl (\<lambda>s c. run_cell c s) (cell14 T)
       [cell17, cell19 T, cell21 T, cell23 T, cell28 T train_dataset, cell30]"

text \<open>The state in which cell 37, the evaluation, starts.\<close>

definition trained :: "('w, 'x) torch \<Rightarrow> 'x batch \<Rightarrow> ('w, 'x) notebook" where
  "trained T train_dataset = run_cell (cell35 T train_dataset) (prepared T train_dataset)"

text \<open>Projections of a trace: the lines printed, the exceptions shown, the entries of
  \<open>train\<close> and \<open>test\<close>, the optimizer's real and virtual steps, and the models on which
  a forward pass was run.\<close>

definition stdout :: "'x event list \<Rightarrow> line list" where
  "stdout tr = concat (map (\<lambda>e. case e of Print l \<Rightarrow> [l] | _ \<Rightarrow> []) tr)"

definition exceptions :: "'x event list \<Rightarrow> error list" where
  "exceptions tr = concat (map (\<lambda>e. case e of Raised x \<Rightarrow> [x] | _ \<Rightarrow> []) tr)"

definition calls :: "'x event list \<Rightarrow> 'x event list" where
  "calls tr =
     concat (map (\<lambda>e. case e of TrainCalled k l \<Rightarrow> [e] | TestCalled l \<Rightarrow> [e] | _ \<Rightarrow> []) tr)"

definition optimizer_steps :: "'x event list \<Rightarrow> 'x event list" where
  "optimizer_steps tr =
     concat (map (\<lambda>e. case e of Step \<Rightarrow> [e] | VirtualStep \<Rightarrow> [e] | _ \<Rightarrow> []) tr)"

definition forwards :: "'x event list \<Rightarrow> module list" where
  "forwards tr = concat (map (\<lambda>e. case e of Forward m \<Rightarrow> [m] | _ \<Rightarrow> []) tr)"

text \<open>The state in which the loop of \<open>train\<close> starts.\<close>

definition train_start ::
  "('w, 'x) torch \<Rightarrow> 'x batch list \<Rightarrow> nat \<Rightarrow> ('w, 'x) notebook \<Rightarrow> ('w, 'x) notebook" where
  "train_start T loader epoch s =
     log ModelTrain ((log (TrainCalled epoch loader) s)\<lparr>weights := set_train T (weights s)\<rparr>)"

text \<open>The local lists and the state after each completed iteration of the loop of
  \<open>train\<close>, obtained by running \<open>train_batch\<close> as the loop does.\<close>

fun train_history ::
  "('w, 'x) torch \<Rightarrow> module \<Rightarrow> nat \<Rightarrow> nat \<Rightarrow> nat \<Rightarrow> 'x batch list
   \<Rightarrow> npfloat list \<times> npfloat list \<Rightarrow> ('w, 'x) notebook
   \<Rightarrow> ((npfloat list \<times> npfloat list) \<times> ('w, 'x) notebook) list" where
  "train_history T m n epoch i [] locals s = []"
| "train_history T m n epoch i (batch # rest) locals s =
     (case train_batch T m n epoch i batch locals s of
        Inl e \<Rightarrow> []
      | Inr (locals', s') \<Rightarrow> (locals', s') # train_history T m n epoch (i + 1) rest locals' s')"

text \<open>The same for a whole call of \<open>train\<close>: entry \<open>j\<close> holds the lists \<open>losses\<close> and
  \<open>top1_acc\<close> and the state at the end of the iteration on batch \<open>j\<close>.\<close>

definition epoch_history ::
  "('w, 'x) torch \<Rightarrow> module \<Rightarrow> 'x batch list \<Rightarrow> nat \<Rightarrow> ('w, 'x) notebook
   \<Rightarrow> ((npfloat list \<times> npfloat list) \<times> ('w, 'x) notebook) list" where
  "epoch_history T m loader epoch s =
     train_history T m (length loader) epoch 0 loader ([], []) (train_start T loader epoch s)"

text \<open>The line an iteration of \<open>train\<close> prints, given the local lists and the state it
  ends with: the means of the lists and the budget the engine reports in that state.\<close>

definition train_line ::
  "('w, 'x) torch \<Rightarrow> nat \<Rightarrow> (npfloat list \<times> npfloat list) \<times> ('w, 'x) notebook \<Rightarrow> line" where
  "train_line T epoch after =
     TrainLine epoch (np_mean (fst (fst after)))
       (np_times (np_mean (snd (fst after))) 100)
       (fst (get_privacy_spent T (weights (snd after)) DELTA)) DELTA"

text \<open>What iteration \<open>j\<close> of an epoch of \<open>n\<close> batches adds to the trace when the virtual
  batch rate is \<open>v\<close>, given the local lists and the state it ends with.\<close>

definition batch_events ::
  "('w, 'x) torch \<Rightarrow> module \<Rightarrow> int \<Rightarrow> nat \<Rightarrow> nat \<Rightarrow> nat
   \<Rightarrow> (npfloat list \<times> npfloat list) \<times> ('w, 'x) notebook \<Rightarrow> 'x event list" where
  "batch_events T m v n epoch j after =
     [ZeroGrad, Forward m, Backward,
      if int (j + 1) mod v = 0 \<or> j + 1 = n then Step else VirtualStep]
     @ (if j mod 200 = 0 then [Print (train_line T epoch after)] else [])"

text \<open>Everything a call of \<open>train\<close> adds to the trace when the virtual batch rate is
  \<open>v\<close>.\<close>

definition train_events ::
  "('w, 'x) torch \<Rightarrow> module \<Rightarrow> int \<Rightarrow> nat \<Rightarrow> 'x batch list \<Rightarrow> ('w, 'x) notebook
   \<Rightarrow> 'x event list" where
  "train_events T m v epoch loader s =
     [TrainCalled epoch loader, ModelTrain]
     @ concat (map (\<lambda>(j, after). batch_events T m v (length loader) epoch j after)
         (zip [0..<length loader]
            (train_history T m (length loader) epoch 0 loader ([], [])
               (train_start T loader epoch s))))"

text \<open>The lines of \<open>train\<close> for epoch \<open>e\<close> among the lines printed.\<close>

fun is_epoch_line :: "nat \<Rightarrow> line \<Rightarrow> bool" where
  "is_epoch_line e (TrainLine e' l a eps d) = (e' = e)"
| "is_epoch_line e (SigmaLine sigma c) = False"
| "is_epoch_line e (ValidLine b) = False"
| "is_epoch_line e (TestLine l a) = False"

definition epoch_lines :: "nat \<Rightarrow> line list \<Rightarrow> line list" where
  "epoch_lines e out = filter (is_epoch_line e) out"

text \<open>The accuracy of the model with tensors \<open>w\<close> on one batch, as both loops compute it.\<close>

definition batch_accuracy :: "('w, 'x) torch \<Rightarrow> module \<Rightarrow> 'w \<Rightarrow> 'x batch \<Rightarrow> npfloat" where
  "batch_accuracy T m w batch =
     np_mean_bool
       (map (\<lambda>(p, l). p = l)
          (zip (map (argmax_output T m w (map fst batch)) [0..<length batch])
               (map snd batch)))"




section \<open>A small instance of the libraries, for evaluating the definitions\<close>

text \<open>The model's state is a counter of real optimizer steps; an image is a number and is
  classified as itself; the privacy budget spent is the number of steps.\<close>

definition counting_torch :: "(nat, nat) torch" where
  "counting_torch =
     \<lparr>new_model = 0, converted = (\<lambda>w. w), to_device = (\<lambda>w. w),
      new_optimizer = (\<lambda>w lr. w), attach = (\<lambda>engine w. w),
      shuffled = (\<lambda>k xs. rev xs),
      set_train = (\<lambda>w. w), set_eval = (\<lambda>w. w), zero_grad = (\<lambda>w. w),
      argmax_output = (\<lambda>m w images k. images ! k),
      loss_item = (\<lambda>m w batch. Fin (of_nat (length batch))),
      backward = (\<lambda>m w batch. w),
      step = Suc, virtual_step = (\<lambda>w. w),
      get_privacy_spent = (\<lambda>w delta. (Fin (of_nat w), Fin 2))\<rparr>"

section \<open>Properties\<close>

subsection \<open>The virtual batch rate\<close>

text \<open>
  C2. With \<open>VIRTUAL_BATCH_SIZE = 512\<close> and \<open>BATCH_SIZE = 128\<close> the guard
  \<open>VIRTUAL_BATCH_SIZE % BATCH_SIZE == 0\<close> holds, so the assertion of cell 30 does not
  fire (the cell raises nothing), and \<open>virtual_batch_rate\<close> is 4; the virtual batch
  size is that multiple of the physical batch size.
\<close>

theorem C2_virtual_batch_rate:
  "py_mod VIRTUAL_BATCH_SIZE BATCH_SIZE = Inr 0
   \<and> virtual_batch_rate_cell VIRTUAL_BATCH_SIZE BATCH_SIZE = Inr 4
   \<and> VIRTUAL_BATCH_SIZE = 4 * BATCH_SIZE"
  by (simp add: virtual_batch_rate_cell_def py_mod_def py_int_truediv_def
      VIRTUAL_BATCH_SIZE_def BATCH_SIZE_def)

subsection \<open>The accuracy helper\<close>

lemma np_eq_same: "np_eq x x = (x \<noteq> NaN)"
  by (cases x) simp_all

lemma count_true_indices:
  "length (filter (\<lambda>b. b) (map f zs)) = card {i. i < length zs \<and> f (zs ! i)}"
proof -
  have "length (filter (\<lambda>b. b) (map f zs)) = length (filter f zs)"
    by (simp add: filter_map comp_def)
  also have "\<dots> = card {i. i < length zs \<and> f (zs ! i)}"
    by (rule length_filter_conv_card)
  finally show ?thesis .
qed

lemma count_equal_indices:
  assumes "length xs = length ys"
  shows "length (filter (\<lambda>b. b) (map (\<lambda>(x, y). np_eq x y) (zip xs ys)))
         = card {i. i < length xs \<and> np_eq (xs ! i) (ys ! i)}"
proof -
  have "{i. i < length (zip xs ys) \<and> (\<lambda>(x, y). np_eq x y) (zip xs ys ! i)}
        = {i. i < length xs \<and> np_eq (xs ! i) (ys ! i)}"
    using assms by auto
  then show ?thesis
    unfolding count_true_indices by simp
qed

lemma count_indices_le: "card {i. i < n \<and> P i} \<le> n"
proof -
  have "card {i. i < n \<and> P i} \<le> card {..<n}"
    by (rule card_mono) auto
  then show ?thesis by simp
qed

lemma np_mean_bool_zip:
  assumes "length xs = length ys" and "xs \<noteq> []"
  shows "np_mean_bool (map (\<lambda>(x, y). np_eq x y) (zip xs ys))
         = Fin (of_nat (card {i. i < length xs \<and> np_eq (xs ! i) (ys ! i)})
                / of_nat (length xs))"
proof -
  have ne: "map (\<lambda>(x, y). np_eq x y) (zip xs ys) \<noteq> []"
    using assms by (cases xs; cases ys) auto
  have len: "length (map (\<lambda>(x, y). np_eq x y) (zip xs ys)) = length xs"
    using assms by simp
  show ?thesis
    unfolding np_mean_bool_def count_equal_indices [OF assms(1)] len
    using ne by simp
qed

text \<open>
  C8 (as amended). For arrays \<open>preds\<close> and \<open>labels\<close> of the same non-zero length,
  \<open>accuracy\<close> returns the number of indices at which their entries compare equal under
  \<open>==\<close> (a \<open>nan\<close> entry compares unequal to everything, itself included) divided by the
  length; that value lies between 0 and 1; \<open>accuracy x x\<close> is the share of the entries of
  \<open>x\<close> that are not \<open>nan\<close>, and so is 1 for every non-empty \<open>x\<close> without a \<open>nan\<close> entry, in
  particular for every non-empty integer array. (Floating-point rounding of the one
  division is not modelled.)
\<close>

theorem C8_accuracy_nonempty:
  assumes "length preds = length labels" and "preds \<noteq> []"
  shows "accuracy preds labels
           = Inr (Fin (of_nat (card {i. i < length preds \<and> np_eq (preds ! i) (labels ! i)})
                       / of_nat (length preds)))
         \<and> (0::rat) \<le> of_nat (card {i. i < length preds \<and> np_eq (preds ! i) (labels ! i)})
                       / of_nat (length preds)
         \<and> (of_nat (card {i. i < length preds \<and> np_eq (preds ! i) (labels ! i)})
                       / of_nat (length preds) :: rat) \<le> 1
         \<and> accuracy preds preds
           = Inr (Fin (of_nat (card {i. i < length preds \<and> preds ! i \<noteq> NaN})
                       / of_nat (length preds)))
         \<and> (NaN \<notin> set preds \<longrightarrow> accuracy preds preds = Inr (Fin 1))
         \<and> accuracy (map np_int ns) (map np_int ns) = (if ns = [] then Inr NaN else Inr (Fin 1))"
proof -
  have pos: "0 < length preds" using assms(2) by simp
  have a: "accuracy preds labels
           = Inr (Fin (of_nat (card {i. i < length preds \<and> np_eq (preds ! i) (labels ! i)})
                       / of_nat (length preds)))"
    using assms by (simp add: accuracy_def np_equal_def np_mean_bool_zip)
  have b: "(of_nat (card {i. i < length preds \<and> np_eq (preds ! i) (labels ! i)})
                       / of_nat (length preds) :: rat) \<le> 1"
    using pos count_indices_le [of "length preds" "\<lambda>i. np_eq (preds ! i) (labels ! i)"]
    by (simp add: divide_le_eq)
  have c: "accuracy preds preds
           = Inr (Fin (of_nat (card {i. i < length preds \<and> preds ! i \<noteq> NaN})
                       / of_nat (length preds)))"
    using assms(2) by (simp add: accuracy_def np_equal_def np_mean_bool_zip np_eq_same)
  have d: "accuracy preds preds = Inr (Fin 1)" if "NaN \<notin> set preds"
  proof -
    have "{i. i < length preds \<and> preds ! i \<noteq> NaN} = {..<length preds}"
      using that by (auto simp: in_set_conv_nth)
    then show ?thesis unfolding c using pos by simp
  qed
  have e: "accuracy (map np_int ns) (map np_int ns) = (if ns = [] then Inr NaN else Inr (Fin 1))"
  proof (cases "ns = []")
    case True
    then show ?thesis by (simp add: accuracy_def np_equal_def np_mean_bool_def)
  next
    case False
    have all: "{i. i < length ns \<and> np_eq (map np_int ns ! i) (map np_int ns ! i)} = {..<length ns}"
      by (auto simp: np_int_def)
    have "np_mean_bool (map (\<lambda>(x, y). np_eq x y) (zip (map np_int ns) (map np_int ns)))
          = Fin (of_nat (card {i. i < length (map np_int ns)
                                \<and> np_eq (map np_int ns ! i) (map np_int ns ! i)})
                 / of_nat (length (map np_int ns)))"
      using False by (intro np_mean_bool_zip) simp_all
    with False show ?thesis
      by (simp add: accuracy_def np_equal_def all)
  qed
  from a b c d e show ?thesis by simp
qed

text \<open>The theorem at two integer arrays of length four that agree at three indices.\<close>

theorem C8_accuracy_nonempty_witness:
  "accuracy [Fin 3, Fin 5, Fin 5, Fin 7] [Fin 3, Fin 5, Fin 6, Fin 7] = Inr (Fin (3 / 4))
   \<and> accuracy [Fin 3, Fin 5, Fin 5, Fin 7] [Fin 3, Fin 5, Fin 5, Fin 7] = Inr (Fin 1)"
proof -
  let ?xs = "[Fin 3, Fin 5, Fin 5, Fin 7]"
  let ?ys = "[Fin 3, Fin 5, Fin 6, Fin 7]"
  have s: "{i. i < length ?xs \<and> np_eq (?xs ! i) (?ys ! i)} = {0, 1, 3}"
    by (auto simp: nth_Cons' less_Suc_eq split: if_splits)
  have c: "card {i. i < length ?xs \<and> np_eq (?xs ! i) (?ys ! i)} = 3"
    unfolding s by simp
  have h1: "length ?xs = length ?ys" by simp
  have h2: "?xs \<noteq> []" by simp
  have h3: "NaN \<notin> set ?xs" by simp
  note inst = C8_accuracy_nonempty [OF h1 h2, where ns = "[]"]
  from inst have a: "accuracy ?xs ?ys
      = Inr (Fin (of_nat (card {i. i < length ?xs \<and> np_eq (?xs ! i) (?ys ! i)})
                  / of_nat (length ?xs)))"
    by blast
  from inst h3 have b: "accuracy ?xs ?xs = Inr (Fin 1)"
    by blast
  from a b show ?thesis
    unfolding c by simp
qed

text \<open>
  On two empty arrays (which have equal length) the comparison is the empty boolean array
  and its mean is \<open>nan\<close>: the result is not a number between 0 and 1. And an array with
  a \<open>nan\<close> entry does not have accuracy 1 against itself.
\<close>

theorem C8_accuracy_empty_counterexample:
  "accuracy [] [] = Inr NaN
   \<and> accuracy [Fin (1 / 2), NaN] [Fin (1 / 2), NaN] = Inr (Fin (1 / 2))"
  by (simp add: accuracy_def np_equal_def np_mean_bool_def)

subsection \<open>One epoch of training\<close>

lemma accuracy_of_batch:
  "accuracy (map (\<lambda>k. np_int (argmax_output T m w (map fst b) k)) [0..<length b])
     (map np_int (map snd b))
   = Inr (batch_accuracy T m w b)"
proof -
  have "map (\<lambda>(x, y). np_eq x y)
          (zip (map (\<lambda>k. np_int (argmax_output T m w (map fst b) k)) [0..<length b])
               (map np_int (map snd b)))
        = map (\<lambda>(p, l). p = l)
            (zip (map (argmax_output T m w (map fst b)) [0..<length b]) (map snd b))"
    by (simp add: zip_map_map np_int_def split_beta)
  then show ?thesis
    by (simp add: accuracy_def np_equal_def batch_accuracy_def)
qed

lemma accuracy_of_batch_comp:
  "accuracy (map (\<lambda>k. np_int (argmax_output T m w (map fst b) k)) [0..<length b])
     (map (np_int \<circ> snd) b)
   = Inr (batch_accuracy T m w b)"
  using accuracy_of_batch [of T m w b] by simp

lemma train_batch_ok:
  assumes "virtual_batch_rate s = Some v" and "v \<noteq> 0"
  shows "\<exists>loc' s'. train_batch T m n epoch i b loc s = Inr (loc', s')
           \<and> trace s' = trace s @ batch_events T m v n epoch i (loc', s')
           \<and> virtual_batch_rate s' = Some v \<and> model s' = model s
           \<and> privacy_engine s' = privacy_engine s \<and> top1_acc s' = top1_acc s"
  using assms
  by (cases loc)
     (simp add: train_batch_def accuracy_of_batch_comp py_mod_def log_def batch_events_def
        train_line_def Let_def split_beta)

lemma train_loop_ok:
  assumes "virtual_batch_rate s = Some v" and "v \<noteq> 0"
  shows "\<exists>loc' s'. train_loop T m n epoch i L loc s = Inr (loc', s')
           \<and> length (train_history T m n epoch i L loc s) = length L
           \<and> trace s' = trace s
               @ concat (map (\<lambda>(j, after). batch_events T m v n epoch j after)
                           (zip [i..<i + length L] (train_history T m n epoch i L loc s)))
           \<and> virtual_batch_rate s' = Some v \<and> model s' = model s
           \<and> privacy_engine s' = privacy_engine s \<and> top1_acc s' = top1_acc s"
  using assms
proof (induction L arbitrary: i loc s)
  case Nil
  then show ?case by simp
next
  case (Cons b L)
  from train_batch_ok [OF Cons.prems, of T m n epoch i b loc]
  obtain loc1 s1 where b: "train_batch T m n epoch i b loc s = Inr (loc1, s1)"
    and t1: "trace s1 = trace s @ batch_events T m v n epoch i (loc1, s1)"
    and v1: "virtual_batch_rate s1 = Some v" and m1: "model s1 = model s"
    and p1: "privacy_engine s1 = privacy_engine s" and a1: "top1_acc s1 = top1_acc s"
    by blast
  from Cons.IH [OF v1 Cons.prems(2), of "Suc i" loc1]
  obtain loc' s' where l: "train_loop T m n epoch (Suc i) L loc1 s1 = Inr (loc', s')"
    and h: "length (train_history T m n epoch (Suc i) L loc1 s1) = length L"
    and t: "trace s' = trace s1
               @ concat (map (\<lambda>(j, after). batch_events T m v n epoch j after)
                   (zip [Suc i..<Suc i + length L] (train_history T m n epoch (Suc i) L loc1 s1)))"
    and r: "virtual_batch_rate s' = Some v" "model s' = model s1"
           "privacy_engine s' = privacy_engine s1" "top1_acc s' = top1_acc s1"
    by blast
  have up: "[i..<i + length (b # L)] = i # [Suc i..<Suc i + length L]"
    by (simp add: upt_rec)
  show ?case
    using b l h t t1 r m1 p1 a1 unfolding up by simp
qed

lemma train_start_fields:
  "virtual_batch_rate (train_start T L epoch s) = virtual_batch_rate s"
  "model (train_start T L epoch s) = model s"
  "privacy_engine (train_start T L epoch s) = privacy_engine s"
  "top1_acc (train_start T L epoch s) = top1_acc s"
  "trace (train_start T L epoch s) = trace s @ [TrainCalled epoch L, ModelTrain]"
  by (simp_all add: train_start_def log_def)

lemma train_ok:
  assumes "virtual_batch_rate s = Some v" and "v \<noteq> 0"
  shows "\<exists>s'. train T m L epoch s = Inr ((), s')
           \<and> length (train_history T m (length L) epoch 0 L ([], []) (train_start T L epoch s))
               = length L
           \<and> trace s' = trace s @ [TrainCalled epoch L, ModelTrain]
               @ concat (map (\<lambda>(j, after). batch_events T m v (length L) epoch j after)
                   (zip [0..<length L]
                      (train_history T m (length L) epoch 0 L ([], [])
                         (train_start T L epoch s))))
           \<and> virtual_batch_rate s' = Some v \<and> model s' = model s
           \<and> privacy_engine s' = privacy_engine s \<and> top1_acc s' = top1_acc s"
proof -
  have v0: "virtual_batch_rate (train_start T L epoch s) = Some v"
    using assms(1) by (simp add: train_start_fields)
  from train_loop_ok [OF v0 assms(2), of T m "length L" epoch 0 L "([], [])"]
  obtain loc' s' where
    l: "train_loop T m (length L) epoch 0 L ([], []) (train_start T L epoch s) = Inr (loc', s')"
    and rest: "length (train_history T m (length L) epoch 0 L ([], []) (train_start T L epoch s))
               = length L"
      "trace s' = trace (train_start T L epoch s)
         @ concat (map (\<lambda>(j, after). batch_events T m v (length L) epoch j after)
             (zip [0..<0 + length L]
                (train_history T m (length L) epoch 0 L ([], []) (train_start T L epoch s))))"
      "virtual_batch_rate s' = Some v" "model s' = model (train_start T L epoch s)"
      "privacy_engine s' = privacy_engine (train_start T L epoch s)"
      "top1_acc s' = top1_acc (train_start T L epoch s)"
    by blast
  have "train T m L epoch s = Inr ((), s')"
    using l by (simp add: train_def train_start_def Let_def log_def)
  with rest show ?thesis
    by (simp add: train_start_fields)
qed

subsection \<open>Projections of traces\<close>

lemma stdout_append: "stdout (a @ b) = stdout a @ stdout b"
  by (simp add: stdout_def)
lemma exceptions_append: "exceptions (a @ b) = exceptions a @ exceptions b"
  by (simp add: exceptions_def)
lemma calls_append: "calls (a @ b) = calls a @ calls b"
  by (simp add: calls_def)
lemma optimizer_steps_append: "optimizer_steps (a @ b) = optimizer_steps a @ optimizer_steps b"
  by (simp add: optimizer_steps_def)
lemma forwards_append: "forwards (a @ b) = forwards a @ forwards b"
  by (simp add: forwards_def)

lemma concat_map_concat_map:
  "concat (map g (concat (map f xs))) = concat (map (\<lambda>x. concat (map g (f x))) xs)"
  by (induction xs) auto

lemma concat_singletons_zip:
  "length ys = length xs \<Longrightarrow> concat (map (\<lambda>(j, a). [g j]) (zip xs ys)) = map g xs"
  by (induction xs ys rule: list_induct2') auto

lemma concat_empties: "concat (map (\<lambda>x. []) xs) = []"
  by (induction xs) auto

lemma concat_if_filter:
  "concat (map (\<lambda>x. if P x then [g x] else []) xs) = map g (filter P xs)"
  by (induction xs) auto

lemma optimizer_steps_batches:
  assumes "length H = length js"
  shows "optimizer_steps (concat (map (\<lambda>(j, after). batch_events T m v n epoch j after) (zip js H)))
         = map (\<lambda>j. if int (j + 1) mod v = 0 \<or> j + 1 = n then Step else VirtualStep) js"
proof -
  have "optimizer_steps (concat (map (\<lambda>(j, after). batch_events T m v n epoch j after) (zip js H)))
        = concat (map (\<lambda>(j, after). [if int (j + 1) mod v = 0 \<or> j + 1 = n then Step else VirtualStep])
                    (zip js H))"
    unfolding optimizer_steps_def concat_map_concat_map
    by (rule arg_cong [where f = concat], rule map_cong)
       (auto simp: batch_events_def)
  then show ?thesis using assms by (simp add: concat_singletons_zip)
qed

lemma calls_batches:
  "calls (concat (map (\<lambda>(j, after). batch_events T m v n epoch j after) zs)) = []"
proof -
  have "calls (concat (map (\<lambda>(j, after). batch_events T m v n epoch j after) zs))
        = concat (map (\<lambda>z. []) zs)"
    unfolding calls_def concat_map_concat_map
    by (rule arg_cong [where f = concat], rule map_cong)
       (auto simp: batch_events_def)
  then show ?thesis by (simp add: concat_empties)
qed

lemma exceptions_batches:
  "exceptions (concat (map (\<lambda>(j, after). batch_events T m v n epoch j after) zs)) = []"
proof -
  have "exceptions (concat (map (\<lambda>(j, after). batch_events T m v n epoch j after) zs))
        = concat (map (\<lambda>z. []) zs)"
    unfolding exceptions_def concat_map_concat_map
    by (rule arg_cong [where f = concat], rule map_cong)
       (auto simp: batch_events_def)
  then show ?thesis by (simp add: concat_empties)
qed

lemma forwards_batches:
  assumes "length H = length js"
  shows "forwards (concat (map (\<lambda>(j, after). batch_events T m v n epoch j after) (zip js H)))
         = replicate (length js) m"
proof -
  have "forwards (concat (map (\<lambda>(j, after). batch_events T m v n epoch j after) (zip js H)))
        = concat (map (\<lambda>(j, after). [m]) (zip js H))"
    unfolding forwards_def concat_map_concat_map
    by (rule arg_cong [where f = concat], rule map_cong)
       (auto simp: batch_events_def)
  also have "\<dots> = map (\<lambda>j. m) js"
    using assms by (rule concat_singletons_zip)
  finally show ?thesis by (simp add: map_replicate_const)
qed

lemma stdout_batches:
  "stdout (concat (map (\<lambda>(j, after). batch_events T m v n epoch j after) zs))
   = map (\<lambda>(j, after). train_line T epoch after) (filter (\<lambda>(j, after). j mod 200 = 0) zs)"
proof -
  have "stdout (concat (map (\<lambda>(j, after). batch_events T m v n epoch j after) zs))
        = concat (map (\<lambda>z. if (\<lambda>(j, after). j mod 200 = 0) z
                            then [(\<lambda>(j, after). train_line T epoch after) z] else []) zs)"
    unfolding stdout_def concat_map_concat_map
    by (rule arg_cong [where f = concat], rule map_cong)
       (auto simp: batch_events_def)
  then show ?thesis by (simp only: concat_if_filter)
qed

subsection \<open>Whole epochs and the evaluation\<close>

lemma train_run:
  assumes "virtual_batch_rate s = Some v" and "v \<noteq> 0"
  shows "\<exists>s'. train T m L epoch s = Inr ((), s')
           \<and> trace s' = trace s @ train_events T m v epoch L s
           \<and> virtual_batch_rate s' = Some v \<and> model s' = model s
           \<and> privacy_engine s' = privacy_engine s \<and> top1_acc s' = top1_acc s"
  using train_ok [OF assms, of T m L epoch] unfolding train_events_def by auto

lemma train_history_length:
  assumes "virtual_batch_rate s = Some v" and "v \<noteq> 0"
  shows "length (train_history T m (length L) epoch 0 L ([], []) (train_start T L epoch s))
         = length [0..<length L]"
  using train_ok [OF assms, of T m L epoch] by auto

lemma calls_train_events: "calls (train_events T m v epoch L s) = [TrainCalled epoch L]"
  unfolding train_events_def calls_append calls_batches
  by (simp add: calls_def)

lemma exceptions_train_events: "exceptions (train_events T m v epoch L s) = []"
  unfolding train_events_def exceptions_append exceptions_batches
  by (simp add: exceptions_def)

lemma forwards_train_events:
  assumes "virtual_batch_rate s = Some v" and "v \<noteq> 0"
  shows "forwards (train_events T m v epoch L s) = replicate (length L) m"
  unfolding train_events_def forwards_append
    forwards_batches [OF train_history_length [OF assms]]
  by (simp add: forwards_def)

lemma stdout_train_events:
  "stdout (train_events T m v epoch L s)
   = map (\<lambda>(j, after). train_line T epoch after)
       (filter (\<lambda>(j, after). j mod 200 = 0)
          (zip [0..<length L]
             (train_history T m (length L) epoch 0 L ([], []) (train_start T L epoch s))))"
  unfolding train_events_def stdout_append stdout_batches
  by (simp add: stdout_def)

lemma length_filter_zip_fst:
  "length ys = length xs \<Longrightarrow>
   length (filter (\<lambda>(j, a). P j) (zip xs ys)) = length (filter P xs)"
  by (induction xs ys rule: list_induct2') auto

lemma epoch_lines_train_lines:
  "epoch_lines e (map (\<lambda>(j, after). train_line T epoch after) zs)
   = (if e = epoch then map (\<lambda>(j, after). train_line T epoch after) zs else [])"
  by (induction zs) (auto simp: epoch_lines_def train_line_def)

lemma epoch_lines_train_events:
  assumes "virtual_batch_rate s = Some v" and "v \<noteq> 0"
  shows "length (epoch_lines e (stdout (train_events T m v epoch L s)))
         = (if e = epoch then length (filter (\<lambda>j. j mod 200 = 0) [0..<length L]) else 0)"
  unfolding stdout_train_events epoch_lines_train_lines
  using length_filter_zip_fst [OF train_history_length [OF assms, of T m L epoch],
      where P = "\<lambda>j. j mod 200 = 0"]
  by simp

lemma epoch_lines_append: "epoch_lines e (a @ b) = epoch_lines e a @ epoch_lines e b"
  by (simp add: epoch_lines_def)

lemma epochs_run:
  assumes "virtual_batch_rate s = Some v" and "v \<noteq> 0"
  shows "\<exists>s' new. epochs T D ks s = Inr ((), s') \<and> trace s' = trace s @ new
           \<and> virtual_batch_rate s' = Some v \<and> model s' = model s
           \<and> privacy_engine s' = privacy_engine s \<and> top1_acc s' = top1_acc s
           \<and> calls new = map (\<lambda>k. TrainCalled (k + 1) (train_loader T D k)) ks
           \<and> exceptions new = []
           \<and> forwards new
               = concat (map (\<lambda>k. replicate (length (train_loader T D k)) (model s)) ks)
           \<and> (\<forall>e. length (epoch_lines e (stdout new))
                  = sum_list (map (\<lambda>k. if e = k + 1
                        then length (filter (\<lambda>j. j mod 200 = 0)
                                       [0..<length (train_loader T D k)])
                        else 0) ks))"
  using assms(1)
proof (induction ks arbitrary: s)
  case Nil
  then show ?case
    by (simp add: calls_def exceptions_def forwards_def stdout_def epoch_lines_def)
next
  case (Cons k ks)
  let ?L = "train_loader T D k"
  let ?new1 = "train_events T (model s) v (k + 1) ?L s"
  from train_run [OF Cons.prems assms(2), of T "model s" ?L "k + 1"]
  obtain s1 where t: "train T (model s) ?L (k + 1) s = Inr ((), s1)"
    and tr1: "trace s1 = trace s @ ?new1"
    and f1: "virtual_batch_rate s1 = Some v" "model s1 = model s"
            "privacy_engine s1 = privacy_engine s" "top1_acc s1 = top1_acc s"
    by blast
  from Cons.IH [OF f1(1)]
  obtain s' new2 where e: "epochs T D ks s1 = Inr ((), s')"
    and tr2: "trace s' = trace s1 @ new2"
    and f2: "virtual_batch_rate s' = Some v" "model s' = model s1"
            "privacy_engine s' = privacy_engine s1" "top1_acc s' = top1_acc s1"
    and c2: "calls new2 = map (\<lambda>k. TrainCalled (k + 1) (train_loader T D k)) ks"
    and x2: "exceptions new2 = []"
    and w2: "forwards new2
               = concat (map (\<lambda>k. replicate (length (train_loader T D k)) (model s1)) ks)"
    and l2: "\<forall>e. length (epoch_lines e (stdout new2))
                  = sum_list (map (\<lambda>k. if e = k + 1
                        then length (filter (\<lambda>j. j mod 200 = 0)
                                       [0..<length (train_loader T D k)])
                        else 0) ks)"
    by blast
  have run: "epochs T D (k # ks) s = Inr ((), s')"
    using t e by simp
  have tr: "trace s' = trace s @ (?new1 @ new2)"
    using tr1 tr2 by simp
  have c: "calls (?new1 @ new2) = map (\<lambda>k. TrainCalled (k + 1) (train_loader T D k)) (k # ks)"
    by (simp add: calls_append calls_train_events c2)
  have x: "exceptions (?new1 @ new2) = []"
    by (simp add: exceptions_append exceptions_train_events x2)
  have w: "forwards (?new1 @ new2)
             = concat (map (\<lambda>k. replicate (length (train_loader T D k)) (model s)) (k # ks))"
    by (simp add: forwards_append forwards_train_events [OF Cons.prems assms(2)] w2 f1)
  have l: "\<forall>e. length (epoch_lines e (stdout (?new1 @ new2)))
                  = sum_list (map (\<lambda>k. if e = k + 1
                        then length (filter (\<lambda>j. j mod 200 = 0)
                                       [0..<length (train_loader T D k)])
                        else 0) (k # ks))"
    using l2
    by (simp add: stdout_append epoch_lines_append
        epoch_lines_train_events [OF Cons.prems assms(2)])
  from run tr f1 f2 c x w l show ?case
    by (intro exI [of _ s'] exI [of _ "?new1 @ new2"]) simp
qed

lemma test_loop_run:
  "test_loop T m L (losses, accs) s
   = Inr ((losses @ map (loss_item T m (weights s)) L,
           accs @ map (batch_accuracy T m (weights s)) L),
          s\<lparr>trace := trace s @ replicate (length L) (Forward m)\<rparr>)"
proof (induction L arbitrary: losses accs s)
  case Nil
  then show ?case by simp
next
  case (Cons b L)
  have b: "test_batch T m b (losses, accs) s
           = Inr ((losses @ [loss_item T m (weights s) b],
                   accs @ [batch_accuracy T m (weights s) b]),
                  s\<lparr>trace := trace s @ [Forward m]\<rparr>)"
    by (simp add: test_batch_def accuracy_of_batch_comp log_def Let_def)
  show ?case
    by (simp add: b Cons.IH replicate_append_same)
qed

lemma test_run:
  "test T m L s
   = Inr (np_mean (map (batch_accuracy T m (set_eval T (weights s))) L),
          s\<lparr>weights := set_eval T (weights s),
            trace := trace s @ [TestCalled L, ModelEval] @ replicate (length L) (Forward m)
              @ [Print (TestLine (np_mean (map (loss_item T m (set_eval T (weights s))) L))
                   (np_times (np_mean (map (batch_accuracy T m (set_eval T (weights s))) L))
                      100))]\<rparr>)"
  by (simp add: test_def test_loop_run log_def Let_def)

subsection \<open>The cells before the training\<close>

lemma validate_resnet18: "validate resnet18 = Inl recorded_exception"
  by (simp add: validate_def resnet18_def make_layer_def basic_block_def incompatible_def
      recorded_exception_def)

lemma violators_converted:
  "violators name (convert_batchnorm_modules m) = []"
  "violators_children name (convert_children children) = []"
  by (induction name m and name children rule: violators_violators_children.induct)
     (simp_all add: incompatible_def)

lemma validate_converted: "validate (convert_batchnorm_modules m) = Inr True"
  by (simp add: validate_def violators_converted)

lemma layers_converted:
  "layers (convert_batchnorm_modules m)
   = map (\<lambda>l. if l = BatchNorm2d then GroupNorm else l) (layers m)"
  "layers_children (convert_children children)
   = map (\<lambda>l. if l = BatchNorm2d then GroupNorm else l) (layers_children children)"
  by (induction m and children rule: layers_layers_children.induct) simp_all

lemma virtual_batch_rate_4: "virtual_batch_rate_cell VIRTUAL_BATCH_SIZE BATCH_SIZE = Inr 4"
  by (simp add: virtual_batch_rate_cell_def py_mod_def py_int_truediv_def
      VIRTUAL_BATCH_SIZE_def BATCH_SIZE_def)

lemma prepared_state:
  "prepared T D =
     \<lparr>model = convert_batchnorm_modules resnet18,
      weights = attach T
                  \<lparr>batch_size = VIRTUAL_BATCH_SIZE, sample_size = length D,
                   alphas = map (\<lambda>x. 1 + of_nat x / 10) [1..<100] @ map of_nat [12..<64],
                   noise_multiplier = NOISE_MULTIPLIER, max_grad_norm = MAX_GRAD_NORM\<rparr>
                  (new_optimizer T (to_device T (converted T (new_model T))) LR),
      privacy_engine =
        Some \<lparr>batch_size = VIRTUAL_BATCH_SIZE, sample_size = length D,
              alphas = map (\<lambda>x. 1 + of_nat x / 10) [1..<100] @ map of_nat [12..<64],
              noise_multiplier = NOISE_MULTIPLIER, max_grad_norm = MAX_GRAD_NORM\<rparr>,
      virtual_batch_rate = Some 4,
      top1_acc = None,
      trace =
        [Raised recorded_exception, ConvertBatchnormModules, Print (ValidLine True),
         ModelToDevice, NewOptimizer, Print (SigmaLine NOISE_MULTIPLIER MAX_GRAD_NORM),
         NewPrivacyEngine
           \<lparr>batch_size = VIRTUAL_BATCH_SIZE, sample_size = length D,
            alphas = map (\<lambda>x. 1 + of_nat x / 10) [1..<100] @ map of_nat [12..<64],
            noise_multiplier = NOISE_MULTIPLIER, max_grad_norm = MAX_GRAD_NORM\<rparr>,
         Attach]\<rparr>"
  by (simp add: prepared_def run_cell_def cell14_def cell17_def cell19_def cell21_def cell23_def
      cell28_def cell30_def validate_resnet18 validate_converted virtual_batch_rate_4
      log_def Let_def)

lemma run_notebook_split:
  "run_notebook T D D' = run_cell (cell37 T D') (trained T D)"
  by (simp add: run_notebook_def trained_def prepared_def)

subsection \<open>The training and the evaluation in the notebook\<close>

lemma prepared_fields:
  "model (prepared T D) = convert_batchnorm_modules resnet18"
  "virtual_batch_rate (prepared T D) = Some 4"
  "top1_acc (prepared T D) = None"
  "privacy_engine (prepared T D) =
     Some \<lparr>batch_size = VIRTUAL_BATCH_SIZE, sample_size = length D,
           alphas = map (\<lambda>x. 1 + of_nat x / 10) [1..<100] @ map of_nat [12..<64],
           noise_multiplier = NOISE_MULTIPLIER, max_grad_norm = MAX_GRAD_NORM\<rparr>"
  "trace (prepared T D) =
        [Raised recorded_exception, ConvertBatchnormModules, Print (ValidLine True),
         ModelToDevice, NewOptimizer, Print (SigmaLine NOISE_MULTIPLIER MAX_GRAD_NORM),
         NewPrivacyEngine
           \<lparr>batch_size = VIRTUAL_BATCH_SIZE, sample_size = length D,
            alphas = map (\<lambda>x. 1 + of_nat x / 10) [1..<100] @ map of_nat [12..<64],
            noise_multiplier = NOISE_MULTIPLIER, max_grad_norm = MAX_GRAD_NORM\<rparr>,
         Attach]"
  by (simp_all add: prepared_state)

lemma trained_state:
  "\<exists>new. trace (trained T D) = trace (prepared T D) @ new
     \<and> virtual_batch_rate (trained T D) = Some 4
     \<and> model (trained T D) = convert_batchnorm_modules resnet18
     \<and> privacy_engine (trained T D) = privacy_engine (prepared T D)
     \<and> top1_acc (trained T D) = None
     \<and> calls new = map (\<lambda>k. TrainCalled (k + 1) (train_loader T D k)) [0..<20]
     \<and> exceptions new = []
     \<and> forwards new
         = concat (map (\<lambda>k. replicate (length (train_loader T D k))
                                (convert_batchnorm_modules resnet18)) [0..<20])
     \<and> (\<forall>e. length (epoch_lines e (stdout new))
            = sum_list (map (\<lambda>k. if e = k + 1
                  then length (filter (\<lambda>j. j mod 200 = 0) [0..<length (train_loader T D k)])
                  else 0) [0..<20]))"
proof -
  have nz: "(4::int) \<noteq> 0" by simp
  from epochs_run [OF prepared_fields(2) nz, where T = T and D = D and ks = "[0..<20]"]
  obtain s' new where e: "epochs T D [0..<20] (prepared T D) = Inr ((), s')"
    and rest: "trace s' = trace (prepared T D) @ new"
      "virtual_batch_rate s' = Some 4" "model s' = model (prepared T D)"
      "privacy_engine s' = privacy_engine (prepared T D)"
      "top1_acc s' = top1_acc (prepared T D)"
      "calls new = map (\<lambda>k. TrainCalled (k + 1) (train_loader T D k)) [0..<20]"
      "exceptions new = []"
      "forwards new = concat (map (\<lambda>k. replicate (length (train_loader T D k))
                                          (model (prepared T D))) [0..<20])"
      "\<forall>e. length (epoch_lines e (stdout new))
            = sum_list (map (\<lambda>k. if e = k + 1
                  then length (filter (\<lambda>j. j mod 200 = 0) [0..<length (train_loader T D k)])
                  else 0) [0..<20])"
    by blast
  have "trained T D = s'"
    using e by (simp add: trained_def run_cell_def cell35_def)
  with rest show ?thesis
    by (simp add: prepared_fields(1,3))
qed

lemma notebook_state:
  "run_notebook T D D' =
     (trained T D)
       \<lparr>weights := set_eval T (weights (trained T D)),
        trace := trace (trained T D)
          @ [TestCalled (test_loader D'), ModelEval]
          @ replicate (length (test_loader D')) (Forward (model (trained T D)))
          @ [Print (TestLine
               (np_mean (map (loss_item T (model (trained T D))
                                (set_eval T (weights (trained T D)))) (test_loader D')))
               (np_times
                  (np_mean (map (batch_accuracy T (model (trained T D))
                                   (set_eval T (weights (trained T D)))) (test_loader D')))
                  100))],
        top1_acc :=
          Some (np_mean (map (batch_accuracy T (model (trained T D))
                                (set_eval T (weights (trained T D)))) (test_loader D')))\<rparr>"
  by (simp add: run_notebook_split run_cell_def cell37_def test_run)

subsection \<open>Data loaders and traces of forward passes\<close>

lemma calls_forwards: "calls (replicate n (Forward m)) = []"
  by (induction n) (simp_all add: calls_def)

lemma exceptions_forwards: "exceptions (replicate n (Forward m)) = []"
  by (induction n) (simp_all add: exceptions_def)

lemma stdout_forwards: "stdout (replicate n (Forward m)) = []"
  by (induction n) (simp_all add: stdout_def)

lemma forwards_forwards: "forwards (replicate n (Forward m)) = replicate n m"
  by (induction n) (simp_all add: forwards_def)

lemma batches_of_length:
  "b \<in> set (batches_of n xs) \<Longrightarrow> length b \<le> n \<and> b \<noteq> []"
proof (induction n xs rule: batches_of.induct)
  case (1 n xs)
  show ?case
  proof (cases "n = 0 \<or> xs = []")
    case True
    with "1.prems" show ?thesis by (subst (asm) batches_of.simps) simp
  next
    case False
    with "1.prems" have "b = take n xs \<or> b \<in> set (batches_of n (drop n xs))"
      by (subst (asm) batches_of.simps) simp
    then show ?thesis
    proof
      assume "b = take n xs"
      with False show ?thesis by simp
    next
      assume "b \<in> set (batches_of n (drop n xs))"
      with "1.IH" False show ?thesis by simp
    qed
  qed
qed

lemma batches_of_sizes:
  "0 < n \<Longrightarrow>
   map length (batches_of n xs)
   = replicate (length xs div n) n @ (if length xs mod n = 0 then [] else [length xs mod n])"
proof (induction n xs rule: batches_of.induct)
  case (1 n xs)
  show ?case
  proof (cases "xs = []")
    case True
    then show ?thesis by (subst batches_of.simps) simp
  next
    case ne: False
    show ?thesis
    proof (cases "length xs < n")
      case True
      with ne "1.prems" have "batches_of n xs = [xs]"
        by (subst batches_of.simps, subst batches_of.simps) simp
      with True ne show ?thesis by simp
    next
      case False
      then have ge: "n \<le> length xs" by simp
      have unf: "batches_of n xs = take n xs # batches_of n (drop n xs)"
        using ne "1.prems" by (subst batches_of.simps) simp
      have ih: "map length (batches_of n (drop n xs))
                = replicate (length (drop n xs) div n) n
                  @ (if length (drop n xs) mod n = 0 then [] else [length (drop n xs) mod n])"
        using "1.IH" ne "1.prems" by simp
      have d: "(length xs - n) div n = length xs div n - 1"
        using ge "1.prems" by (simp add: le_div_geq)
      have m: "(length xs - n) mod n = length xs mod n"
        using ge by (simp add: le_mod_geq)
      have pos: "0 < length xs div n"
        using ge "1.prems" by (simp add: div_greater_zero_iff)
      have rep: "n # replicate (length xs div n - 1) n = replicate (length xs div n) n"
        using pos by (cases "length xs div n") simp_all
      show ?thesis
        unfolding unf using ge by (simp add: ih d m rep [symmetric])
    qed
  qed
qed

subsection \<open>The schedule of real and virtual optimizer steps\<close>

lemma train_batch_weights:
  assumes "virtual_batch_rate s = Some v" and "v \<noteq> 0"
    and "train_batch T m n epoch i b loc s = Inr (loc', s')"
  shows "weights s'
         = (if v dvd int (i + 1) \<or> i + 1 = n then step T else virtual_step T)
             (backward T m (zero_grad T (weights s)) b)"
  using assms
  by (cases loc)
     (auto simp: train_batch_def accuracy_of_batch_comp py_mod_def log_def Let_def split_beta
        mod_eq_0_iff_dvd split: if_splits)

lemma train_loop_weights:
  assumes "virtual_batch_rate s = Some v" and "v \<noteq> 0"
    and "train_loop T m n epoch i L loc s = Inr (loc', s')"
  shows "weights s'
         = foldl (\<lambda>w (j, b).
                    (if v dvd int (j + 1) \<or> j + 1 = n then step T else virtual_step T)
                      (backward T m (zero_grad T w) b))
             (weights s) (zip [i..<i + length L] L)"
  using assms(1,3)
proof (induction L arbitrary: i loc s)
  case Nil
  then show ?case by simp
next
  case (Cons b L)
  from train_batch_ok [OF Cons.prems(1) assms(2), of T m n epoch i b loc]
  obtain loc1 s1 where b: "train_batch T m n epoch i b loc s = Inr (loc1, s1)"
    and v1: "virtual_batch_rate s1 = Some v"
    by blast
  have w1: "weights s1
            = (if v dvd int (i + 1) \<or> i + 1 = n then step T else virtual_step T)
                (backward T m (zero_grad T (weights s)) b)"
    by (rule train_batch_weights [OF Cons.prems(1) assms(2) b])
  have l: "train_loop T m n epoch (Suc i) L loc1 s1 = Inr (loc', s')"
    using Cons.prems(2) b by simp
  have up: "[i..<i + length (b # L)] = i # [Suc i..<Suc i + length L]"
    by (simp add: upt_rec)
  show ?case
    unfolding up using Cons.IH [OF v1 l] w1 by simp
qed

text \<open>
  C1. When \<open>train\<close> runs with a non-zero \<open>virtual_batch_rate\<close> it returns, and over an
  epoch of \<open>n\<close> batches it takes exactly one optimizer action per batch, in order: for the
  batch with 0-based index \<open>i\<close> a real \<open>optimizer.step()\<close> if \<open>i + 1\<close> is a multiple of
  \<open>virtual_batch_rate\<close> or \<open>i + 1 = n\<close>, and \<open>optimizer.virtual_step()\<close> otherwise. In
  particular the action on the last batch of the epoch is a real step. The action is
  taken on the optimizer: the tensors with which \<open>train\<close> ends are those obtained from
  \<open>model.train()\<close> by running, batch after batch, \<open>zero_grad\<close>, the backward pass on the
  batch, and then \<open>step\<close> or \<open>virtual_step\<close> of the library as that condition says. In
  the notebook the training starts with \<open>virtual_batch_rate = 4\<close>.
\<close>

theorem C1_real_step_schedule:
  assumes "virtual_batch_rate s = Some v" and "v \<noteq> 0"
  shows "\<exists>s'. train T m loader epoch s = Inr ((), s')
           \<and> optimizer_steps (trace s')
               = optimizer_steps (trace s)
                 @ map (\<lambda>i. if v dvd int (i + 1) \<or> i + 1 = length loader
                             then Step else VirtualStep) [0..<length loader]
           \<and> (loader \<noteq> [] \<longrightarrow> last (optimizer_steps (trace s')) = Step)
           \<and> weights s'
               = foldl (\<lambda>w (i, batch).
                          (if v dvd int (i + 1) \<or> i + 1 = length loader
                           then step T else virtual_step T)
                            (backward T m (zero_grad T w) batch))
                   (set_train T (weights s)) (zip [0..<length loader] loader)
           \<and> virtual_batch_rate (prepared T D) = Some 4"
proof -
  let ?H = "train_history T m (length loader) epoch 0 loader ([], [])
              (train_start T loader epoch s)"
  let ?sched = "map (\<lambda>i. if v dvd int (i + 1) \<or> i + 1 = length loader
                          then Step else VirtualStep) [0..<length loader]"
  from train_ok [OF assms, of T m loader epoch]
  obtain s' where r: "train T m loader epoch s = Inr ((), s')"
    and h: "length ?H = length loader"
    and t: "trace s' = trace s @ [TrainCalled epoch loader, ModelTrain]
              @ concat (map (\<lambda>(j, after). batch_events T m v (length loader) epoch j after)
                          (zip [0..<length loader] ?H))"
    by blast
  have h': "length ?H = length [0..<length loader]"
    using h by simp
  have steps: "optimizer_steps (trace s') = optimizer_steps (trace s) @ ?sched"
    unfolding t optimizer_steps_append optimizer_steps_batches [OF h']
    by (simp add: optimizer_steps_def mod_eq_0_iff_dvd)
  have lst: "last (optimizer_steps (trace s')) = Step" if ne: "loader \<noteq> []"
  proof -
    have up: "[0..<length loader] = [0..<length loader - 1] @ [length loader - 1]"
      using ne by (cases loader rule: rev_cases) simp_all
    have "last ?sched = Step"
      using ne by (subst up) simp
    moreover have "?sched \<noteq> []" using ne by simp
    ultimately show ?thesis unfolding steps by simp
  qed
  have v0: "virtual_batch_rate (train_start T loader epoch s) = Some v"
    using assms(1) by (simp add: train_start_fields)
  from r obtain loc' where
    l: "train_loop T m (length loader) epoch 0 loader ([], []) (train_start T loader epoch s)
        = Inr (loc', s')"
    by (auto simp: train_def train_start_def Let_def log_def split: sum.splits)
  have w: "weights s'
               = foldl (\<lambda>w (i, batch).
                          (if v dvd int (i + 1) \<or> i + 1 = length loader
                           then step T else virtual_step T)
                            (backward T m (zero_grad T w) batch))
                   (set_train T (weights s)) (zip [0..<length loader] loader)"
    using train_loop_weights [OF v0 assms(2) l]
    by (simp add: train_start_def log_def)
  have p: "virtual_batch_rate (prepared T D) = Some 4"
    by (simp add: prepared_state)
  from r steps lst w p show ?thesis by blast
qed

text \<open>An epoch of six batches at rate 4: real steps on the fourth and on the last batch,
  so that the counter of real steps ends at 2.\<close>

theorem C1_real_step_schedule_witness:
  "\<exists>s'. train counting_torch (Module Linear [])
           [[(1, 1)], [(2, 2)], [(3, 3)], [(4, 4)], [(5, 5)], [(6, 6)]] 1
           ((cell14 counting_torch)\<lparr>virtual_batch_rate := Some 4\<rparr>) = Inr ((), s')
     \<and> optimizer_steps (trace s')
         = [VirtualStep, VirtualStep, VirtualStep, Step, VirtualStep, Step]
     \<and> weights s' = 2"
proof -
  let ?s = "(cell14 counting_torch)\<lparr>virtual_batch_rate := Some 4\<rparr>"
  let ?L = "[[(1::nat, 1::nat)], [(2, 2)], [(3, 3)], [(4, 4)], [(5, 5)], [(6, 6)]]"
  have v: "virtual_batch_rate ?s = Some 4"
    by simp
  have nz: "(4::int) \<noteq> 0" by simp
  have e: "optimizer_steps (trace ?s) = []"
    by (simp add: cell14_def optimizer_steps_def)
  have f: "foldl (\<lambda>w (i, batch).
              (if (4::int) dvd int (i + 1) \<or> i + 1 = length ?L
               then step counting_torch else virtual_step counting_torch)
                (backward counting_torch (Module Linear []) (zero_grad counting_torch w) batch))
             (set_train counting_torch (weights ?s)) (zip [0..<length ?L] ?L) = 2"
    by (simp add: counting_torch_def cell14_def upt_rec)
  from C1_real_step_schedule [OF v nz, of counting_torch "Module Linear []" ?L 1]
  show ?thesis unfolding e f by (auto simp: upt_rec)
qed

subsection \<open>The driver\<close>

text \<open>
  C6. In a run of the notebook the entries of \<open>train\<close> and \<open>test\<close> are, in order: twenty
  calls of \<open>train\<close>, with the epoch numbers 1 to 20 in increasing order, each on that
  pass of the training loader; and then one call of \<open>test\<close>, on the test loader.
\<close>

theorem C6_driver_calls:
  "calls (trace (run_notebook T D D'))
   = map (\<lambda>e. TrainCalled e (train_loader T D (e - 1))) [1..<21]
     @ [TestCalled (test_loader D')]"
proof -
  from trained_state [of T D]
  obtain new where t: "trace (trained T D) = trace (prepared T D) @ new"
    and c: "calls new = map (\<lambda>k. TrainCalled (k + 1) (train_loader T D k)) [0..<20]"
    by blast
  have "map (\<lambda>e. TrainCalled e (train_loader T D (e - 1))) (map Suc [0..<20])
        = map (\<lambda>k. TrainCalled (k + 1) (train_loader T D k)) [0..<20]"
    by simp
  moreover have "map Suc [0..<20] = [1..<21]"
    unfolding map_Suc_upt by simp
  ultimately have m: "map (\<lambda>k. TrainCalled (k + 1) (train_loader T D k)) [0..<20]
        = map (\<lambda>e. TrainCalled e (train_loader T D (e - 1))) [1..<21]"
    by simp
  have p: "calls (trace (prepared T D)) = []"
    by (simp add: prepared_fields calls_def)
  have "calls (trace (run_notebook T D D'))
        = calls (trace (prepared T D)) @ calls new @ [TestCalled (test_loader D')]"
    by (simp add: notebook_state t calls_append calls_forwards) (simp add: calls_def)
  then show ?thesis
    unfolding p c m by simp
qed

subsection \<open>The compatibility check and the layer substitution\<close>

text \<open>
  C3. After the layer substitution the compatibility check returns \<open>True\<close> and raises
  nothing: \<open>validate\<close> on the converted ResNet18 is \<open>True\<close>, and cell 19, run after cells
  14 and 17, ends normally having printed only "Is the model valid? True".
\<close>

theorem C3_validate_after_conversion:
  "validate (convert_batchnorm_modules resnet18) = Inr True
   \<and> (\<exists>s. cell19 T (run_cell cell17 (cell14 T)) = Inr ((), s)
          \<and> model s = convert_batchnorm_modules resnet18
          \<and> stdout (trace s) = [ValidLine True])"
  by (simp add: validate_converted cell19_def run_cell_def cell17_def cell14_def
      validate_resnet18 log_def Let_def stdout_def)

text \<open>
  C4. On the unmodified ResNet18 the check raises \<open>IncompatibleModuleException\<close>; the
  exception carries the names of the offending modules, which are the twenty
  batch-normalisation layers listed in the notebook; and in a run of the notebook this is
  the only exception any cell ends with. (Failures of the environment, such as I/O errors
  or exhausted memory, are outside the model.)
\<close>

theorem C4_validation_failure:
  "validate resnet18 = Inl recorded_exception
   \<and> recorded_exception
     = IncompatibleModuleException
         ''Model contains incompatible modules. Some modules are not valid.''
         (violators ''Main'' resnet18)
   \<and> violators ''Main'' resnet18
     = [''Main.bn1'', ''Main.layer1.0.bn1'', ''Main.layer1.0.bn2'', ''Main.layer1.1.bn1'',
        ''Main.layer1.1.bn2'', ''Main.layer2.0.bn1'', ''Main.layer2.0.bn2'',
        ''Main.layer2.0.downsample.1'', ''Main.layer2.1.bn1'', ''Main.layer2.1.bn2'',
        ''Main.layer3.0.bn1'', ''Main.layer3.0.bn2'', ''Main.layer3.0.downsample.1'',
        ''Main.layer3.1.bn1'', ''Main.layer3.1.bn2'', ''Main.layer4.0.bn1'',
        ''Main.layer4.0.bn2'', ''Main.layer4.0.downsample.1'', ''Main.layer4.1.bn1'',
        ''Main.layer4.1.bn2'']
   \<and> length (violators ''Main'' resnet18)
     = length (filter (\<lambda>l. l = BatchNorm2d) (layers resnet18))
   \<and> exceptions (trace (run_notebook T D D')) = [recorded_exception]"
proof -
  have v: "violators ''Main'' resnet18
     = [''Main.bn1'', ''Main.layer1.0.bn1'', ''Main.layer1.0.bn2'', ''Main.layer1.1.bn1'',
        ''Main.layer1.1.bn2'', ''Main.layer2.0.bn1'', ''Main.layer2.0.bn2'',
        ''Main.layer2.0.downsample.1'', ''Main.layer2.1.bn1'', ''Main.layer2.1.bn2'',
        ''Main.layer3.0.bn1'', ''Main.layer3.0.bn2'', ''Main.layer3.0.downsample.1'',
        ''Main.layer3.1.bn1'', ''Main.layer3.1.bn2'', ''Main.layer4.0.bn1'',
        ''Main.layer4.0.bn2'', ''Main.layer4.0.downsample.1'', ''Main.layer4.1.bn1'',
        ''Main.layer4.1.bn2'']"
    by (simp add: resnet18_def make_layer_def basic_block_def incompatible_def)
  have r: "recorded_exception
     = IncompatibleModuleException
         ''Model contains incompatible modules. Some modules are not valid.''
         (violators ''Main'' resnet18)"
    unfolding v by (simp add: recorded_exception_def)
  have n: "length (filter (\<lambda>l. l = BatchNorm2d) (layers resnet18)) = 20"
    by (simp add: resnet18_def make_layer_def basic_block_def)
  from trained_state [of T D]
  obtain new where t: "trace (trained T D) = trace (prepared T D) @ new"
    and x: "exceptions new = []"
    by blast
  have p: "exceptions (trace (prepared T D)) = [recorded_exception]"
    by (simp add: prepared_fields exceptions_def)
  have "exceptions (trace (run_notebook T D D')) = exceptions (trace (prepared T D)) @ exceptions new"
    by (simp add: notebook_state t exceptions_append exceptions_forwards)
       (simp add: exceptions_def)
  then have e: "exceptions (trace (run_notebook T D D')) = [recorded_exception]"
    unfolding p x by simp
  have l: "length (violators ''Main'' resnet18)
     = length (filter (\<lambda>l. l = BatchNorm2d) (layers resnet18))"
    unfolding n unfolding v by simp
  from validate_resnet18 r v l e show ?thesis by blast
qed

text \<open>
  C7. The layer substitution replaces every batch-normalisation layer of the model by a
  group-normalisation layer and leaves every other layer as it is, so that none is left;
  the notebook stores the result in its variable \<open>model\<close>. In a run of the notebook the
  substitution is the second thing that happens, after the failed check of cell 17: it
  comes before the model is moved to the device, before the optimizer and the privacy
  engine are made and attached, and before any forward pass; and every forward pass of
  the training and of the evaluation is run on the rewritten model.
\<close>

theorem C7_conversion_before_training:
  "layers (convert_batchnorm_modules resnet18)
     = map (\<lambda>l. if l = BatchNorm2d then GroupNorm else l) (layers resnet18)
   \<and> BatchNorm2d \<in> set (layers resnet18)
   \<and> BatchNorm2d \<notin> set (layers (convert_batchnorm_modules resnet18))
   \<and> model (run_notebook T D D') = convert_batchnorm_modules resnet18
   \<and> take 8 (trace (run_notebook T D D'))
     = [Raised recorded_exception, ConvertBatchnormModules, Print (ValidLine True),
        ModelToDevice, NewOptimizer, Print (SigmaLine NOISE_MULTIPLIER MAX_GRAD_NORM),
        NewPrivacyEngine (the (privacy_engine (run_notebook T D D'))), Attach]
   \<and> forwards (take 8 (trace (run_notebook T D D'))) = []
   \<and> forwards (trace (run_notebook T D D'))
     = replicate (sum_list (map (\<lambda>k. length (train_loader T D k)) [0..<20])
                  + length (test_loader D'))
         (convert_batchnorm_modules resnet18)"
proof -
  let ?cm = "convert_batchnorm_modules resnet18"
  have a: "layers ?cm = map (\<lambda>l. if l = BatchNorm2d then GroupNorm else l) (layers resnet18)"
    by (rule layers_converted)
  have b: "BatchNorm2d \<in> set (layers resnet18)"
    by (simp add: resnet18_def)
  have c: "BatchNorm2d \<notin> set (layers ?cm)"
    unfolding a by auto
  from trained_state [of T D]
  obtain new where t: "trace (trained T D) = trace (prepared T D) @ new"
    and m: "model (trained T D) = ?cm"
    and pe: "privacy_engine (trained T D) = privacy_engine (prepared T D)"
    and f: "forwards new
         = concat (map (\<lambda>k. replicate (length (train_loader T D k)) ?cm) [0..<20])"
    by blast
  have d: "model (run_notebook T D D') = ?cm"
    by (simp add: notebook_state m)
  have e: "take 8 (trace (run_notebook T D D'))
     = [Raised recorded_exception, ConvertBatchnormModules, Print (ValidLine True),
        ModelToDevice, NewOptimizer, Print (SigmaLine NOISE_MULTIPLIER MAX_GRAD_NORM),
        NewPrivacyEngine (the (privacy_engine (run_notebook T D D'))), Attach]"
    by (simp add: notebook_state t pe prepared_fields)
  have g: "forwards (take 8 (trace (run_notebook T D D'))) = []"
    unfolding e by (simp add: forwards_def)
  have cr: "concat (map (\<lambda>k. replicate (h k) ?cm) ks) = replicate (sum_list (map h ks)) ?cm"
    for h :: "nat \<Rightarrow> nat" and ks
    by (induction ks) (simp_all add: replicate_add)
  have p: "forwards (trace (prepared T D)) = []"
    by (simp add: prepared_fields forwards_def)
  have "forwards (trace (run_notebook T D D'))
        = forwards (trace (prepared T D)) @ forwards new
          @ replicate (length (test_loader D')) ?cm"
    by (simp add: notebook_state t m forwards_append forwards_forwards)
       (simp add: forwards_def)
  then have h: "forwards (trace (run_notebook T D D'))
     = replicate (sum_list (map (\<lambda>k. length (train_loader T D k)) [0..<20])
                  + length (test_loader D')) ?cm"
    unfolding p f cr by (simp add: replicate_add)
  from a b c d e g h show ?thesis by blast
qed

subsection \<open>The privacy engine's parameters\<close>

text \<open>
  C10. The privacy engine of the notebook is constructed with \<open>batch_size\<close> equal to
  \<open>VIRTUAL_BATCH_SIZE\<close>, which is 512, and \<open>sample_size\<close> equal to the size of the
  training set. Its batch size is not the \<open>BATCH_SIZE\<close> of 128 with which the data loader
  cuts the training set into batches (none has more than 128 samples); it is
  \<open>virtual_batch_rate\<close> times that, the number of samples per real optimizer step.
\<close>

theorem C10_engine_parameters:
  "\<exists>engine r. privacy_engine (run_notebook T D D') = Some engine
     \<and> NewPrivacyEngine engine \<in> set (trace (run_notebook T D D'))
     \<and> batch_size engine = VIRTUAL_BATCH_SIZE \<and> batch_size engine = 512
     \<and> sample_size engine = length D
     \<and> BATCH_SIZE = 128 \<and> batch_size engine \<noteq> BATCH_SIZE
     \<and> virtual_batch_rate (run_notebook T D D') = Some r
     \<and> batch_size engine = r * BATCH_SIZE
     \<and> (\<forall>k. \<forall>b \<in> set (train_loader T D k). length b \<le> 128)"
proof -
  let ?engine = "\<lparr>batch_size = VIRTUAL_BATCH_SIZE, sample_size = length D,
           alphas = map (\<lambda>x. 1 + of_nat x / 10) [1..<100] @ map of_nat [12..<64],
           noise_multiplier = NOISE_MULTIPLIER, max_grad_norm = MAX_GRAD_NORM\<rparr>"
  from trained_state [of T D]
  obtain new where t: "trace (trained T D) = trace (prepared T D) @ new"
    and v: "virtual_batch_rate (trained T D) = Some 4"
    and pe: "privacy_engine (trained T D) = privacy_engine (prepared T D)"
    by blast
  have a: "privacy_engine (run_notebook T D D') = Some ?engine"
    by (simp add: notebook_state pe prepared_fields)
  have b: "NewPrivacyEngine ?engine \<in> set (trace (run_notebook T D D'))"
    by (simp add: notebook_state t prepared_fields)
  have c: "virtual_batch_rate (run_notebook T D D') = Some 4"
    by (simp add: notebook_state v)
  have d: "\<forall>k. \<forall>b \<in> set (train_loader T D k). length b \<le> 128"
    using batches_of_length [of _ "nat BATCH_SIZE"]
    by (auto simp: train_loader_def BATCH_SIZE_def)
  from a b c d show ?thesis
    by (intro exI [of _ ?engine] exI [of _ 4])
       (simp add: VIRTUAL_BATCH_SIZE_def BATCH_SIZE_def)
qed

text \<open>A run on a training set of three samples: one batch of three per epoch.\<close>

theorem C10_engine_parameters_witness:
  "\<exists>engine. privacy_engine (run_notebook counting_torch [(0, 0), (1, 1), (2, 2)] [(1, 1)])
              = Some engine
     \<and> batch_size engine = 512 \<and> sample_size engine = 3
     \<and> length (hd (train_loader counting_torch [(0, 0), (1, 1), (2, 2)] 0)) \<le> 128
     \<and> map length (train_loader counting_torch [(0, 0), (1, 1), (2, 2)] 0) = [3]"
proof -
  have s: "map length (train_loader counting_torch [(0, 0), (1, 1), (2, 2)] 0) = [3]"
    by (simp add: train_loader_def BATCH_SIZE_def batches_of_sizes counting_torch_def)
  then have ne: "train_loader counting_torch [(0, 0), (1, 1), (2, 2)] 0 \<noteq> []"
    by auto
  then have h: "hd (train_loader counting_torch [(0, 0), (1, 1), (2, 2)] 0)
                \<in> set (train_loader counting_torch [(0, 0), (1, 1), (2, 2)] 0)"
    by simp
  from C10_engine_parameters [of counting_torch "[(0, 0), (1, 1), (2, 2)]" "[(1, 1)]"]
  obtain engine where e: "privacy_engine (run_notebook counting_torch [(0, 0), (1, 1), (2, 2)] [(1, 1)])
              = Some engine" "batch_size engine = 512" "sample_size engine = length [(0::nat, 0::nat), (1, 1), (2, 2)]"
    and l: "\<forall>k. \<forall>b \<in> set (train_loader counting_torch [(0, 0), (1, 1), (2, 2)] k). length b \<le> 128"
    by blast
  from l h have "length (hd (train_loader counting_torch [(0, 0), (1, 1), (2, 2)] 0)) \<le> 128"
    by blast
  with e s show ?thesis by simp
qed

subsection \<open>The lines printed\<close>

lemma train_batch_locals:
  assumes "train_batch T m n epoch i b loc s = Inr (loc', s')"
  shows "loc' = (fst loc @ [loss_item T m (zero_grad T (weights s)) b],
                 snd loc @ [batch_accuracy T m (zero_grad T (weights s)) b])"
  using assms
  by (cases loc)
     (auto simp: train_batch_def accuracy_of_batch_comp py_mod_def log_def Let_def split_beta
        split: option.splits if_splits)

lemma train_history_locals:
  assumes "length (train_history T m n epoch i L loc s) = length L" and "j < length L"
  shows "fst (train_history T m n epoch i L loc s ! j)
         = (fst loc @ map (\<lambda>k. loss_item T m
                 (zero_grad T (weights ((s # map snd (train_history T m n epoch i L loc s)) ! k)))
                 (L ! k)) [0..<Suc j],
            snd loc @ map (\<lambda>k. batch_accuracy T m
                 (zero_grad T (weights ((s # map snd (train_history T m n epoch i L loc s)) ! k)))
                 (L ! k)) [0..<Suc j])"
  using assms
proof (induction L arbitrary: i loc s j)
  case Nil
  then show ?case by simp
next
  case (Cons b L)
  from Cons.prems(1) obtain loc1 s1 where
    b: "train_batch T m n epoch i b loc s = Inr (loc1, s1)"
    by (cases "train_batch T m n epoch i b loc s") auto
  let ?H' = "train_history T m n epoch (Suc i) L loc1 s1"
  have H: "train_history T m n epoch i (b # L) loc s = (loc1, s1) # ?H'"
    using b by simp
  have loc1: "loc1 = (fst loc @ [loss_item T m (zero_grad T (weights s)) b],
                      snd loc @ [batch_accuracy T m (zero_grad T (weights s)) b])"
    by (rule train_batch_locals [OF b])
  show ?case
  proof (cases j)
    case 0
    show ?thesis unfolding H 0 by (simp add: loc1)
  next
    case (Suc j')
    have len: "length ?H' = length L"
      using Cons.prems(1) H by simp
    have j': "j' < length L"
      using Cons.prems(2) Suc by simp
    note ih = Cons.IH [OF len j']
    have up: "[0..<Suc (Suc j')] = 0 # map Suc [0..<Suc j']"
      by (simp only: map_Suc_upt upt_conv_Cons [of 0 "Suc (Suc j')"])
    show ?thesis
      unfolding H Suc up
      by (simp add: ih [unfolded loc1] loc1 comp_def del: upt_Suc)
  qed
qed

lemma sum_list_single:
  "sum_list (map (\<lambda>i. if e = i + 1 then f i else (0::nat)) [0..<n])
   = (if 0 < e \<and> e - 1 < n then f (e - 1) else 0)"
  by (induction n) auto

lemma step200: "(Suc n + 199) div 200 = (n + 199) div 200 + (if n mod 200 = 0 then 1 else 0)"
proof -
  define q where "q = n div 200"
  define r where "r = n mod 200"
  have n: "n = 200 * q + r" and r: "r < 200"
    by (simp_all add: q_def r_def)
  have a: "(Suc n + 199) div 200 = q + 1"
    unfolding n using r by simp
  have b: "(n + 199) div 200 = q + (if r = 0 then 0 else 1)"
  proof (cases "r = 0")
    case True
    then show ?thesis unfolding n by simp
  next
    case False
    then obtain r' where r': "r = Suc r'" by (cases r) auto
    with r have "r' < 199" by simp
    then have "(200 * q + r + 199) div 200 = q + 1"
      unfolding r' by simp
    with False show ?thesis unfolding n by simp
  qed
  show ?thesis
    unfolding a b by (simp add: r_def)
qed

lemma count_report_indices:
  "length (filter (\<lambda>j. j mod 200 = 0) [0..<n]) = (n + 199) div 200"
proof (induction n)
  case 0
  show ?case by simp
next
  case (Suc n)
  show ?case
    unfolding step200 [of n] using Suc by simp
qed

lemma stdout_notebook:
  "\<exists>lines. stdout (trace (run_notebook T D D'))
     = [ValidLine True, SigmaLine NOISE_MULTIPLIER MAX_GRAD_NORM] @ lines
       @ [TestLine
            (np_mean (map (loss_item T (model (run_notebook T D D'))
                             (weights (run_notebook T D D'))) (test_loader D')))
            (np_times
               (np_mean (map (batch_accuracy T (model (run_notebook T D D'))
                                (weights (run_notebook T D D'))) (test_loader D')))
               100)]
     \<and> (\<forall>e. length (epoch_lines e lines)
            = sum_list (map (\<lambda>k. if e = k + 1
                  then length (filter (\<lambda>j. j mod 200 = 0) [0..<length (train_loader T D k)])
                  else 0) [0..<20]))"
proof -
  from trained_state [of T D]
  obtain new where t: "trace (trained T D) = trace (prepared T D) @ new"
    and l: "\<forall>e. length (epoch_lines e (stdout new))
            = sum_list (map (\<lambda>k. if e = k + 1
                  then length (filter (\<lambda>j. j mod 200 = 0) [0..<length (train_loader T D k)])
                  else 0) [0..<20])"
    by blast
  have p: "stdout (trace (prepared T D))
           = [ValidLine True, SigmaLine NOISE_MULTIPLIER MAX_GRAD_NORM]"
    by (simp add: prepared_fields stdout_def)
  have "stdout (trace (run_notebook T D D'))
     = stdout (trace (prepared T D)) @ stdout new
       @ [TestLine
            (np_mean (map (loss_item T (model (run_notebook T D D'))
                             (weights (run_notebook T D D'))) (test_loader D')))
            (np_times
               (np_mean (map (batch_accuracy T (model (run_notebook T D D'))
                                (weights (run_notebook T D D'))) (test_loader D')))
               100)]"
    by (simp add: notebook_state t stdout_append stdout_forwards) (simp add: stdout_def)
  with p have "stdout (trace (run_notebook T D D'))
     = [ValidLine True, SigmaLine NOISE_MULTIPLIER MAX_GRAD_NORM] @ stdout new
       @ [TestLine
            (np_mean (map (loss_item T (model (run_notebook T D D'))
                             (weights (run_notebook T D D'))) (test_loader D')))
            (np_times
               (np_mean (map (batch_accuracy T (model (run_notebook T D D'))
                                (weights (run_notebook T D D'))) (test_loader D')))
               100)]"
    by simp
  with l show ?thesis by blast
qed

text \<open>
  C5. (1) A call of \<open>train\<close> with a non-zero virtual batch rate prints exactly one line
  for each batch whose 0-based index \<open>j\<close> satisfies \<open>j mod 200 = 0\<close>, in order, and no
  other line. The line of batch \<open>j\<close> shows the epoch number, the mean of the list
  \<open>losses\<close> and 100 times the mean of the list \<open>top1_acc\<close> as they are at the end of
  that iteration, the budget that the privacy engine reports in the state at the end of
  that iteration, and \<open>DELTA\<close>; at that point the two lists hold the losses and the
  accuracies of the batches \<open>0\<close> to \<open>j\<close> of this epoch, each computed when its batch was
  processed. (2) In a run of the notebook the number of lines printed for epoch \<open>k + 1\<close>
  (\<open>k < 20\<close>) is the number of such indices below the number \<open>n\<close> of batches of that
  pass, which is \<open>(n + 199) div 200\<close> (two for the 391 batches of CIFAR10), and so at
  least one when the pass has a batch. (3) The last line printed is the test line,
  with the mean of the losses and 100 times the mean of the accuracies of the test
  batches.
\<close>

theorem C5_printed_lines:
  "(virtual_batch_rate s = Some v \<and> v \<noteq> 0 \<longrightarrow>
      (\<exists>s'. train T m L e s = Inr ((), s')
         \<and> stdout (trace s')
             = stdout (trace s)
               @ map (\<lambda>(j, after). train_line T e after)
                   (filter (\<lambda>(j, after). j mod 200 = 0)
                      (zip [0..<length L] (epoch_history T m L e s)))
         \<and> length (epoch_history T m L e s) = length L
         \<and> (\<forall>j<length L.
               fst (epoch_history T m L e s ! j)
               = (map (\<lambda>i. loss_item T m
                      (zero_grad T (weights
                         ((train_start T L e s # map snd (epoch_history T m L e s)) ! i)))
                      (L ! i)) [0..<Suc j],
                  map (\<lambda>i. batch_accuracy T m
                      (zero_grad T (weights
                         ((train_start T L e s # map snd (epoch_history T m L e s)) ! i)))
                      (L ! i)) [0..<Suc j]))))
   \<and> (k < 20 \<longrightarrow>
        length (epoch_lines (k + 1) (stdout (trace (run_notebook T D D'))))
          = length (filter (\<lambda>j. j mod 200 = 0) [0..<length (train_loader T D k)])
        \<and> length (epoch_lines (k + 1) (stdout (trace (run_notebook T D D'))))
          = (length (train_loader T D k) + 199) div 200
        \<and> (train_loader T D k \<noteq> [] \<longrightarrow>
             1 \<le> length (epoch_lines (k + 1) (stdout (trace (run_notebook T D D'))))))
   \<and> last (stdout (trace (run_notebook T D D')))
       = TestLine
           (np_mean (map (loss_item T (model (run_notebook T D D'))
                            (weights (run_notebook T D D'))) (test_loader D')))
           (np_times
              (np_mean (map (batch_accuracy T (model (run_notebook T D D'))
                               (weights (run_notebook T D D'))) (test_loader D')))
              100)"
proof -
  have one: "\<exists>s'. train T m L e s = Inr ((), s')
         \<and> stdout (trace s')
             = stdout (trace s)
               @ map (\<lambda>(j, after). train_line T e after)
                   (filter (\<lambda>(j, after). j mod 200 = 0)
                      (zip [0..<length L] (epoch_history T m L e s)))
         \<and> length (epoch_history T m L e s) = length L
         \<and> (\<forall>j<length L.
               fst (epoch_history T m L e s ! j)
               = (map (\<lambda>i. loss_item T m
                      (zero_grad T (weights
                         ((train_start T L e s # map snd (epoch_history T m L e s)) ! i)))
                      (L ! i)) [0..<Suc j],
                  map (\<lambda>i. batch_accuracy T m
                      (zero_grad T (weights
                         ((train_start T L e s # map snd (epoch_history T m L e s)) ! i)))
                      (L ! i)) [0..<Suc j]))"
    if v: "virtual_batch_rate s = Some v" and nz: "v \<noteq> 0"
  proof -
    from train_run [OF v nz, of T m L e]
    obtain s' where r: "train T m L e s = Inr ((), s')"
      and t: "trace s' = trace s @ train_events T m v e L s"
      by blast
    have out: "stdout (trace s')
             = stdout (trace s)
               @ map (\<lambda>(j, after). train_line T e after)
                   (filter (\<lambda>(j, after). j mod 200 = 0)
                      (zip [0..<length L] (epoch_history T m L e s)))"
      unfolding t stdout_append stdout_train_events epoch_history_def ..
    have len: "length (epoch_history T m L e s) = length L"
      using train_history_length [OF v nz, of T m L e] by (simp add: epoch_history_def)
    have locals: "fst (epoch_history T m L e s ! j)
               = (map (\<lambda>i. loss_item T m
                      (zero_grad T (weights
                         ((train_start T L e s # map snd (epoch_history T m L e s)) ! i)))
                      (L ! i)) [0..<Suc j],
                  map (\<lambda>i. batch_accuracy T m
                      (zero_grad T (weights
                         ((train_start T L e s # map snd (epoch_history T m L e s)) ! i)))
                      (L ! i)) [0..<Suc j])"
      if "j < length L" for j
      using train_history_locals [OF len [unfolded epoch_history_def] that]
      unfolding epoch_history_def by simp
    from r out len locals show ?thesis by blast
  qed
  from stdout_notebook [of T D D']
  obtain lines where o: "stdout (trace (run_notebook T D D'))
     = [ValidLine True, SigmaLine NOISE_MULTIPLIER MAX_GRAD_NORM] @ lines
       @ [TestLine
            (np_mean (map (loss_item T (model (run_notebook T D D'))
                             (weights (run_notebook T D D'))) (test_loader D')))
            (np_times
               (np_mean (map (batch_accuracy T (model (run_notebook T D D'))
                                (weights (run_notebook T D D'))) (test_loader D')))
               100)]"
    and l: "\<forall>e. length (epoch_lines e lines)
            = sum_list (map (\<lambda>k. if e = k + 1
                  then length (filter (\<lambda>j. j mod 200 = 0) [0..<length (train_loader T D k)])
                  else 0) [0..<20])"
    by blast
  have cnt: "length (epoch_lines (k + 1) (stdout (trace (run_notebook T D D'))))
          = length (filter (\<lambda>j. j mod 200 = 0) [0..<length (train_loader T D k)])"
    if "k < 20"
  proof -
    have "length (epoch_lines (k + 1) (stdout (trace (run_notebook T D D'))))
          = length (epoch_lines (k + 1) lines)"
      unfolding o by (simp add: epoch_lines_def)
    also have "\<dots> = length (filter (\<lambda>j. j mod 200 = 0) [0..<length (train_loader T D k)])"
      using that l sum_list_single [of "k + 1"
          "\<lambda>k. length (filter (\<lambda>j. j mod 200 = 0) [0..<length (train_loader T D k)])" 20]
      by simp
    finally show ?thesis .
  qed
  have ge: "1 \<le> length (filter (\<lambda>j. j mod 200 = 0) [0..<n])" if "n \<noteq> 0" for n :: nat
  proof -
    have "0 \<in> set (filter (\<lambda>j. j mod 200 = 0) [0..<n])"
      using that by simp
    then have "filter (\<lambda>j. j mod 200 = 0) [0..<n] \<noteq> []"
      by (metis empty_iff empty_set)
    then show ?thesis
      by (cases "filter (\<lambda>j. j mod 200 = 0) [0..<n]") simp_all
  qed
  have two: "length (epoch_lines (k + 1) (stdout (trace (run_notebook T D D'))))
          = length (filter (\<lambda>j. j mod 200 = 0) [0..<length (train_loader T D k)])
        \<and> length (epoch_lines (k + 1) (stdout (trace (run_notebook T D D'))))
          = (length (train_loader T D k) + 199) div 200
        \<and> (train_loader T D k \<noteq> [] \<longrightarrow>
             1 \<le> length (epoch_lines (k + 1) (stdout (trace (run_notebook T D D')))))"
    if "k < 20"
    using cnt [OF that] ge [of "length (train_loader T D k)"]
      count_report_indices [of "length (train_loader T D k)"]
    by simp
  have three: "last (stdout (trace (run_notebook T D D')))
       = TestLine
           (np_mean (map (loss_item T (model (run_notebook T D D'))
                            (weights (run_notebook T D D'))) (test_loader D')))
           (np_times
              (np_mean (map (batch_accuracy T (model (run_notebook T D D'))
                               (weights (run_notebook T D D'))) (test_loader D')))
              100)"
    by (subst o) simp
  from one two three show ?thesis by blast
qed

text \<open>An epoch of two batches, which prints its one line after the first batch (loss 1,
  accuracy 100 per cent, no real step taken yet), and a run of the notebook on a training
  set of three samples.\<close>

theorem C5_printed_lines_witness:
  "(\<exists>s'. train counting_torch (Module Linear []) [[(1, 1)], [(2, 3)]] 1
            ((cell14 counting_torch)\<lparr>virtual_batch_rate := Some 4\<rparr>) = Inr ((), s')
      \<and> stdout (trace s') = [TrainLine 1 (Fin 1) (Fin 100) (Fin 0) DELTA])
   \<and> length (epoch_lines 1
        (stdout (trace (run_notebook counting_torch [(0, 0), (1, 1), (2, 2)] [(1, 1)])))) = 1
   \<and> (\<exists>l a. last (stdout (trace (run_notebook counting_torch [(0, 0), (1, 1), (2, 2)] [(1, 1)])))
        = TestLine l a)"
proof -
  let ?s = "(cell14 counting_torch)\<lparr>virtual_batch_rate := Some 4\<rparr>"
  let ?L = "[[(1::nat, 1::nat)], [(2, 3)]]"
  let ?D = "[(0::nat, 0::nat), (1, 1), (2, 2)]"
  note inst = C5_printed_lines [of ?s 4 counting_torch "Module Linear []" ?L 1 0 ?D "[(1, 1)]"]
  have v: "virtual_batch_rate ?s = Some 4 \<and> (4::int) \<noteq> 0" by simp
  have h: "map (\<lambda>(j, after). train_line counting_torch 1 after)
             (filter (\<lambda>(j, after). j mod 200 = 0)
                (zip [0..<length ?L] (epoch_history counting_torch (Module Linear []) ?L 1 ?s)))
           = [TrainLine 1 (Fin 1) (Fin 100) (Fin 0) DELTA]"
    by (simp add: epoch_history_def train_start_def train_batch_def accuracy_def np_equal_def np_int_def
        np_mean_bool_def np_mean_def py_mod_def log_def Let_def counting_torch_def cell14_def
        train_line_def upt_rec)
  have e: "stdout (trace ?s) = []"
    by (simp add: cell14_def stdout_def)
  from inst v obtain s' where
    r: "train counting_torch (Module Linear []) ?L 1 ?s = Inr ((), s')"
    and o: "stdout (trace s')
             = stdout (trace ?s)
               @ map (\<lambda>(j, after). train_line counting_torch 1 after)
                   (filter (\<lambda>(j, after). j mod 200 = 0)
                      (zip [0..<length ?L]
                         (epoch_history counting_torch (Module Linear []) ?L 1 ?s)))"
    by blast
  have one: "\<exists>s'. train counting_torch (Module Linear []) ?L 1 ?s = Inr ((), s')
      \<and> stdout (trace s') = [TrainLine 1 (Fin 1) (Fin 100) (Fin 0) DELTA]"
    using r o unfolding h e by simp
  have "map length (train_loader counting_torch ?D 0) = [3]"
    by (simp add: train_loader_def BATCH_SIZE_def batches_of_sizes counting_torch_def)
  then have n: "length (train_loader counting_torch ?D 0) = 1"
    by (metis length_map list.size(3) list.size(4) add_0 One_nat_def Suc_eq_plus1)
  have k: "(0::nat) < 20" by simp
  from inst k have "length (epoch_lines (0 + 1)
        (stdout (trace (run_notebook counting_torch ?D [(1, 1)]))))
      = length (filter (\<lambda>j. j mod 200 = 0) [0..<length (train_loader counting_torch ?D 0)])"
    by blast
  then have two: "length (epoch_lines 1
        (stdout (trace (run_notebook counting_torch ?D [(1, 1)])))) = 1"
    unfolding n by simp
  from inst have three: "\<exists>l a. last (stdout (trace (run_notebook counting_torch ?D [(1, 1)])))
        = TestLine l a"
    by blast
  from one two three show ?thesis by blast
qed

subsection \<open>The accuracy that test returns\<close>

















end
